theory Spec2Isabelle
  imports
    Complex_Main
    "HOL-Library.Char_ord"
    "HOL-Library.List_Lexorder"
    "HOL-Library.Multiset"
    "HOL-Library.Code_Target_Numeral"
begin

section \<open>CPVS monitoring API runner: probe executor and report aggregator\<close>

text \<open>
  A shallow embedding of \<^verbatim>\<open>monitor_apis.py\<close> (class \<^verbatim>\<open>APIMonitor\<close> and \<^verbatim>\<open>main\<close>),
  of the simulation in \<^verbatim>\<open>demo_monitor.py\<close> and of the exit path of
  \<^verbatim>\<open>email_report.py\<close>.

  Conventions of the embedding:
  \<^item> a Python dictionary with a fixed set of possible keys is a record whose optional keys
    are \<open>option\<close> fields (\<open>None\<close>: the key is absent);
  \<^item> Python \<^verbatim>\<open>str\<close> is \<open>string\<close>, compared lexicographically by character code
    (the order of \<^verbatim>\<open>Char_ord\<close> and \<^verbatim>\<open>List_Lexorder\<close>), as Python compares by code point;
  \<^item> a Python float is the rational number it denotes; the result of a float operation
    is the exact result rounded to the nearest number with a 53 bit significand, ties to
    the even significand (\<open>fl\<close>), as IEEE 754 binary64 does; the limits of the exponent
    (overflow, subnormal numbers) and the special values are not modelled;
  \<^item> what the outside world does (the clock, the network, the file system, the thread
    scheduler) is an explicit argument of the function that consults it;
  \<^item> a raised exception is the \<open>Inl\<close> branch of a sum type.
\<close>

subsection \<open>Data model\<close>

datatype json_value =
    JNull
  | JBool bool
  | JNum rat
  | JStr string
  | JArr "json_value list"
  | JObj "(string \<times> json_value) list"

datatype py_error =
    KeyError string
  | ValueError string
  | FileNotFoundError string
  | OtherError string

text \<open>An entry of \<^verbatim>\<open>config['monitoring_apis']\<close>; every key may be missing.\<close>

record api_config =
  a_name :: "string option"
  a_method :: "string option"
  a_endpoint :: "string option"
  a_params :: "(string \<times> string) list option"
  a_body :: "json_value option"
  a_description :: "string option"

text \<open>The dictionary \<^verbatim>\<open>result\<close> built by \<^verbatim>\<open>call_api\<close>.\<close>

record probe_result =
  r_name :: string
  r_endpoint :: string
  r_method :: string
  r_url :: string
  r_description :: string
  r_timestamp :: string
  r_status :: string
  r_status_code :: "int option"
  r_response_time_ms :: "rat option"
  r_response_size_bytes :: "nat option"
  r_content_type :: "string option"
  r_response_data :: "json_value option"
  r_error :: "string option"

record config =
  c_base_url :: "string option"
  c_monitoring_apis :: "api_config list option"
  c_timeout :: "rat option"

text \<open>The attributes of an \<^verbatim>\<open>APIMonitor\<close> object.\<close>

record monitor =
  m_config :: config
  m_results :: "probe_result list"
  m_base_url :: "string option"

record summary =
  total_apis :: nat
  successful :: nat
  failed :: nat
  success_rate :: string
  average_response_time_ms :: rat
  execution_timestamp :: string
  base_url :: "string option"
  mode :: "string option"

record report =
  summary :: summary
  detailed_results :: "probe_result list"

subsection \<open>Rounding and formatting\<close>

text \<open>The nearest integer, ties to even.\<close>

definition round_half_even :: "rat \<Rightarrow> int" where
  "round_half_even x =
     (let f = \<lfloor>x\<rfloor>; d = x - of_int f
      in if d < 1 / 2 then f
         else if 1 / 2 < d then f + 1
         else if even f then f else f + 1)"

text \<open>Rounding to binary64. \<open>bit_length n\<close> is the number of binary digits of \<open>n\<close>;
  \<open>ilog2 x\<close> is the exponent of the largest power of 2 that is at most \<open>x\<close>, for a
  positive \<open>x\<close>; \<open>fl x\<close> scales \<open>x\<close> by a power of 2 to a number from \<open>2^52\<close> up to
  \<open>2^53\<close>, rounds it to an integer and scales back.\<close>

fun bit_length :: "nat \<Rightarrow> nat" where
  "bit_length n = (if n = 0 then 0 else Suc (bit_length (n div 2)))"

declare bit_length.simps [simp del]

definition ilog2 :: "rat \<Rightarrow> int" where
  "ilog2 x =
     (let (a, b) = quotient_of x;
          k = int (bit_length (nat a)) - int (bit_length (nat b))
      in if 2 powi k \<le> x then k else k - 1)"

definition fl :: "rat \<Rightarrow> rat" where
  "fl x =
     (if x = 0 then 0
      else (let e = ilog2 \<bar>x\<bar> - 52
            in of_int (round_half_even (x / 2 powi e)) * 2 powi e))"

text \<open>The nearest multiple of one hundredth, ties to even, and \<^verbatim>\<open>round(x, 2)\<close> for a
  float \<open>x\<close>: the float nearest to that decimal.\<close>

definition decimal2 :: "rat \<Rightarrow> rat" where
  "decimal2 x = of_int (round_half_even (x * 100)) / 100"

definition round2 :: "rat \<Rightarrow> rat" where
  "round2 x = fl (decimal2 x)"

text \<open>\<^verbatim>\<open>sum\<close> over floats: the additions are made from the left, starting from the
  integer 0, each rounded to a float (CPython from version 3.12 on compensates the rounding
  errors of these additions, which is not modelled).\<close>

definition float_sum :: "rat list \<Rightarrow> rat" where
  "float_sum xs = foldl (\<lambda>acc x. fl (acc + x)) 0 xs"

definition digit_char :: "nat \<Rightarrow> char" where
  "digit_char d = ''0123456789'' ! d"

fun show_nat :: "nat \<Rightarrow> string" where
  "show_nat n = (if n < 10 then [digit_char n] else show_nat (n div 10) @ [digit_char (n mod 10)])"

declare show_nat.simps [simp del]

text \<open>\<^verbatim>\<open>f"{x:.2f}"\<close> for a float \<open>x\<close>: sign, integer part, a point and exactly two
  decimals, the nearest such decimal to the number \<open>x\<close> denotes, ties to even.\<close>

definition format_2f :: "rat \<Rightarrow> string" where
  "format_2f x =
     (let q = nat (round_half_even (\<bar>x\<bar> * 100))
      in (if x < 0 then ''-'' else '''') @ show_nat (q div 100) @ ''.''
           @ [digit_char (q mod 100 div 10), digit_char (q mod 10)])"

text \<open>Reading a decimal numeral back; used to state what a formatted string denotes.\<close>

definition is_digit :: "char \<Rightarrow> bool" where
  "is_digit c = (48 \<le> (of_char c :: nat) \<and> (of_char c :: nat) \<le> 57)"

definition read_nat :: "string \<Rightarrow> nat" where
  "read_nat s = foldl (\<lambda>acc c. 10 * acc + (of_char c - 48)) 0 s"

subsection \<open>The report aggregator\<close>

text \<open>
  \<^verbatim>\<open>APIMonitor.generate_report\<close>. The second argument is the reading of
  \<^verbatim>\<open>datetime.now().isoformat()\<close>. The method assigns to no attribute of the monitor and
  \<^verbatim>\<open>sorted\<close> builds a new list, so the monitor is not part of the result.
\<close>

definition generate_report :: "monitor \<Rightarrow> string \<Rightarrow> report" where
  "generate_report m now =
     (let total = length (m_results m);
          succ = length (filter (\<lambda>r. r_status r = ''SUCCESS'') (m_results m));
          fails = total - succ;
          avg = (if 0 < succ
                 then (let response_times =
                             map (\<lambda>r. the (r_response_time_ms r))
                               (filter (\<lambda>r. r_response_time_ms r \<noteq> None) (m_results m))
                       in if response_times \<noteq> []
                          then round2 (fl (float_sum response_times / of_nat (length response_times)))
                          else 0)
                 else 0)
      in \<lparr> summary =
             \<lparr> total_apis = total,
               successful = succ,
               failed = fails,
               success_rate =
                 (if 0 < total
                  then format_2f (fl (fl (of_nat succ / of_nat total) * 100)) @ ''%''
                  else ''0%''),
               average_response_time_ms = avg,
               execution_timestamp = now,
               base_url = m_base_url m,
               mode = None \<rparr>,
           detailed_results = sort_key r_name (m_results m) \<rparr>)"

subsection \<open>The probe executor\<close>

text \<open>What \<^verbatim>\<open>response.json()\<close> does: it returns the parsed body, raises
  \<^verbatim>\<open>json.JSONDecodeError\<close>, or raises something else (for instance \<^verbatim>\<open>RecursionError\<close>
  on a deeply nested body, or the decode error of another JSON library).\<close>

datatype json_outcome =
    JsonParsed json_value
  | JsonDecodeError
  | JsonRaises string

text \<open>The attributes of a \<^verbatim>\<open>requests.Response\<close> that \<^verbatim>\<open>call_api\<close> reads;
  \<open>resp_header_content_type\<close> is what the header lookup for \<^verbatim>\<open>Content-Type\<close> finds.\<close>

record response =
  resp_status_code :: int
  resp_content :: string
  resp_header_content_type :: "string option"
  resp_text :: string
  resp_json :: json_outcome

text \<open>The three ways \<^verbatim>\<open>call_api\<close> issues a request: \<^verbatim>\<open>requests.get\<close>,
  \<^verbatim>\<open>requests.post\<close> and \<^verbatim>\<open>requests.request\<close>, with their arguments.\<close>

datatype request =
    Get string "(string \<times> string) list" rat
  | Post string "(string \<times> string) list" json_value rat
  | Request string string "(string \<times> string) list" json_value rat

text \<open>What the network call does: it returns a response or raises
  \<^verbatim>\<open>requests.exceptions.Timeout\<close>, \<^verbatim>\<open>requests.exceptions.ConnectionError\<close> (with its
  message) or any other \<^verbatim>\<open>Exception\<close> (with its message).\<close>

datatype net_outcome =
    Responded response
  | Timeout
  | ConnectionError string
  | Raises string

text \<open>The outside world of one call of \<^verbatim>\<open>call_api\<close>: the clock reading stored as
  \<^verbatim>\<open>timestamp\<close>, the network, and the float \<^verbatim>\<open>time.time() - start_time\<close>, the seconds
  between the two readings of the clock.\<close>

record probe_env =
  e_now :: string
  e_send :: "request \<Rightarrow> net_outcome"
  e_elapsed :: rat

text \<open>\<^verbatim>\<open>f"{self.base_url}"\<close>: an unset base URL is formatted as \<^verbatim>\<open>None\<close>.\<close>

definition format_base_url :: "string option \<Rightarrow> string" where
  "format_base_url b = (case b of None \<Rightarrow> ''None'' | Some u \<Rightarrow> u)"

text \<open>The dictionary \<^verbatim>\<open>result\<close> as first built (lines 57 to 64). The key
  \<^verbatim>\<open>status\<close> is not set yet, which the empty string stands for: every path through
  \<^verbatim>\<open>call_api\<close> assigns it before returning.\<close>

definition initial_result ::
  "string \<Rightarrow> string \<Rightarrow> string \<Rightarrow> string \<Rightarrow> string \<Rightarrow> string \<Rightarrow> probe_result" where
  "initial_result nm ep meth url descr ts =
     \<lparr> r_name = nm, r_endpoint = ep, r_method = meth, r_url = url,
       r_description = descr, r_timestamp = ts, r_status = [],
       r_status_code = None, r_response_time_ms = None, r_response_size_bytes = None,
       r_content_type = None, r_response_data = None, r_error = None \<rparr>"

definition build_request ::
  "config \<Rightarrow> string \<Rightarrow> string \<Rightarrow> (string \<times> string) list \<Rightarrow> json_value \<Rightarrow> request" where
  "build_request cfg meth url ps bd =
     (let tmo = (case c_timeout cfg of None \<Rightarrow> 30 | Some t \<Rightarrow> t)
      in if meth = ''GET'' then Get url ps tmo
         else if meth = ''POST'' then Post url ps bd tmo
         else Request meth url ps bd tmo)"

text \<open>\<^verbatim>\<open>APIMonitor.call_api\<close>. The three subscript reads come before the \<^verbatim>\<open>try\<close>
  block, so a missing key raises \<^verbatim>\<open>KeyError\<close> to the caller.\<close>

definition call_api :: "monitor \<Rightarrow> api_config \<Rightarrow> probe_env \<Rightarrow> py_error + probe_result" where
  "call_api m api env =
     (case a_name api of None \<Rightarrow> Inl (KeyError ''name'') | Some nm \<Rightarrow>
      case a_method api of None \<Rightarrow> Inl (KeyError ''method'') | Some meth \<Rightarrow>
      case a_endpoint api of None \<Rightarrow> Inl (KeyError ''endpoint'') | Some ep \<Rightarrow>
      (let ps = (case a_params api of None \<Rightarrow> [] | Some p \<Rightarrow> p);
           bd = (case a_body api of None \<Rightarrow> JObj [] | Some b \<Rightarrow> b);
           url = format_base_url (m_base_url m) @ ep;
           result = initial_result nm ep meth url
                      (case a_description api of None \<Rightarrow> [] | Some d \<Rightarrow> d) (e_now env)
       in case e_send env (build_request (m_config m) meth url ps bd) of
            Responded resp \<Rightarrow>
              (let result1 = result
                     \<lparr> r_status := ''SUCCESS'',
                       r_status_code := Some (resp_status_code resp),
                       r_response_time_ms := Some (round2 (fl (e_elapsed env * 1000))),
                       r_response_size_bytes := Some (length (resp_content resp)),
                       r_content_type :=
                         Some (case resp_header_content_type resp of None \<Rightarrow> ''N/A'' | Some c \<Rightarrow> c) \<rparr>
               in case resp_json resp of
                    JsonParsed v \<Rightarrow> Inr (result1 \<lparr> r_response_data := Some v \<rparr>)
                  | JsonDecodeError \<Rightarrow>
                      Inr (result1 \<lparr> r_response_data := Some (JStr (take 500 (resp_text resp))) \<rparr>)
                  | JsonRaises e \<Rightarrow>
                      Inr (result1 \<lparr> r_status := ''ERROR'', r_error := Some e \<rparr>))
          | Timeout \<Rightarrow>
              Inr (result \<lparr> r_status := ''TIMEOUT'', r_error := Some ''Request timed out'' \<rparr>)
          | ConnectionError e \<Rightarrow>
              Inr (result \<lparr> r_status := ''CONNECTION_ERROR'', r_error := Some e \<rparr>)
          | Raises e \<Rightarrow>
              Inr (result \<lparr> r_status := ''ERROR'', r_error := Some e \<rparr>)))"

text \<open>\<^verbatim>\<open>as_completed\<close> yields every future exactly once, in the order in which the
  pool finishes them. The schedule picks, at each step, which of the pending futures
  finishes next (its entry modulo the number still pending); a schedule that is used up
  leaves the submission order.\<close>

fun as_completed :: "nat list \<Rightarrow> 'a list \<Rightarrow> 'a list" where
  "as_completed sched [] = []"
| "as_completed [] (x # xs) = x # xs"
| "as_completed (k # ks) (x # xs) =
     (let i = k mod length (x # xs)
      in (x # xs) ! i # as_completed ks (take i (x # xs) @ drop (Suc i) (x # xs)))"

text \<open>The loop of \<^verbatim>\<open>run_all_apis\<close>: \<^verbatim>\<open>future.result()\<close> returns the result of the call or
  raises its exception again, which leaves the loop and the method; the results appended
  before stay in \<^verbatim>\<open>self.results\<close>.\<close>

fun collect ::
  "monitor \<Rightarrow> (py_error + probe_result) list \<Rightarrow> monitor \<times> (py_error + probe_result list)" where
  "collect m [] = (m, Inr (m_results m))"
| "collect m (Inl e # fs) = (m, Inl e)"
| "collect m (Inr r # fs) = collect (m \<lparr> m_results := m_results m @ [r] \<rparr>) fs"

text \<open>\<^verbatim>\<open>APIMonitor.run_all_apis\<close>: the monitor afterwards, and the returned list or the
  exception raised. \<open>envs i\<close> is the outside world of the call for the \<open>i\<close>-th
  descriptor; \<^verbatim>\<open>ThreadPoolExecutor\<close> raises \<^verbatim>\<open>ValueError\<close> for a worker count below 1.\<close>

definition run_all_apis ::
  "monitor \<Rightarrow> int \<Rightarrow> (nat \<Rightarrow> probe_env) \<Rightarrow> nat list \<Rightarrow> monitor \<times> (py_error + probe_result list)" where
  "run_all_apis m max_workers envs sched =
     (case c_monitoring_apis (m_config m) of
        None \<Rightarrow> (m, Inl (KeyError ''monitoring_apis''))
      | Some apis \<Rightarrow>
          if max_workers \<le> 0
          then (m, Inl (ValueError ''max_workers must be greater than 0''))
          else collect m
                 (as_completed sched
                    (map (\<lambda>(i, api). call_api m api (envs i)) (enumerate 0 apis))))"

subsection \<open>The entry point of the monitor\<close>

text \<open>\<^verbatim>\<open>str.replace\<close> for a pattern that is not empty (the only use has a literal pattern):
  the occurrences are replaced from the left, without overlap.\<close>

function replace_str :: "string \<Rightarrow> string \<Rightarrow> string \<Rightarrow> string" where
  "replace_str old new [] = []"
| "replace_str old new (c # cs) =
     (if old \<noteq> [] \<and> take (length old) (c # cs) = old
      then new @ replace_str old new (drop (length old) (c # cs))
      else c # replace_str old new cs)"
  by pat_completeness auto
termination
  by (relation "measure (\<lambda>(old, new, s). length s)") auto

text \<open>\<^verbatim>\<open>APIMonitor.__init__\<close>: the argument is what opening and parsing the
  configuration file gives.\<close>

definition init_monitor :: "py_error + config \<Rightarrow> py_error + monitor" where
  "init_monitor loaded =
     (case loaded of
        Inl e \<Rightarrow> Inl e
      | Inr cfg \<Rightarrow> Inr \<lparr> m_config = cfg, m_results = [], m_base_url = None \<rparr>)"

text \<open>\<^verbatim>\<open>APIMonitor.set_domain\<close>.\<close>

definition set_domain :: "monitor \<Rightarrow> string \<Rightarrow> py_error + monitor" where
  "set_domain m domain =
     (case c_base_url (m_config m) of
        None \<Rightarrow> Inl (KeyError ''base_url'')
      | Some base_url_template \<Rightarrow>
          Inr (m \<lparr> m_base_url :=
                    Some (replace_str ''{{cpvs.services.domain}}'' domain base_url_template) \<rparr>))"

text \<open>The outside world of one run of \<^verbatim>\<open>main\<close>: the configuration file, the network
  and clock of every probe, the scheduler, the clock reading of the report, and what
  writing the report file and printing the summary do (\<open>Some e\<close>: they raise \<open>e\<close>).\<close>

record world =
  w_config_file :: "py_error + config"
  w_envs :: "nat \<Rightarrow> probe_env"
  w_sched :: "nat list"
  w_report_now :: string
  w_save :: "report \<Rightarrow> py_error option"
  w_print :: "report \<Rightarrow> py_error option"

text \<open>\<^verbatim>\<open>main\<close> of \<^verbatim>\<open>monitor_apis.py\<close> after the arguments are parsed: the value is
  the exit code of the process. Both \<^verbatim>\<open>except\<close> clauses exit with 1; \<^verbatim>\<open>SystemExit\<close> is
  not an \<^verbatim>\<open>Exception\<close> and passes through them.\<close>

definition main :: "string \<Rightarrow> int \<Rightarrow> world \<Rightarrow> int" where
  "main domain workers w =
     (case init_monitor (w_config_file w) of
        Inl e \<Rightarrow> 1
      | Inr m0 \<Rightarrow>
          (case set_domain m0 domain of
             Inl e \<Rightarrow> 1
           | Inr m1 \<Rightarrow>
               (case run_all_apis m1 workers (w_envs w) (w_sched w) of
                  (m2, Inl e) \<Rightarrow> 1
                | (m2, Inr rs) \<Rightarrow>
                    (let rep = generate_report m2 (w_report_now w)
                     in case w_save w rep of
                          Some e \<Rightarrow> 1
                        | None \<Rightarrow>
                            (case w_print w rep of
                               Some e \<Rightarrow> 1
                             | None \<Rightarrow> if failed (summary rep) = 0 then 0 else 1)))))"

subsection \<open>The demo monitor\<close>

record demo_api =
  d_name :: string
  d_method :: string
  d_endpoint :: string
  d_description :: string
  d_simulate_success :: bool
  d_response_time_range :: "rat \<times> rat"

definition demo_apis :: "demo_api list" where
  "demo_apis =
     [\<lparr> d_name = ''Fund-Value-Exp'', d_method = ''GET'',
        d_endpoint = ''/fundvalue-nyl-exp/api/fundUnitValues'',
        d_description = ''Fund Value Export API'',
        d_simulate_success = True, d_response_time_range = (100, 300) \<rparr>,
      \<lparr> d_name = ''Fund-Value-Reload'', d_method = ''GET'',
        d_endpoint = ''/fundvalue-nyl-reload/api/fundUnitValues'',
        d_description = ''Fund Value Reload API'',
        d_simulate_success = True, d_response_time_range = (150, 350) \<rparr>,
      \<lparr> d_name = ''LTC_COSTS'', d_method = ''GET'',
        d_endpoint = ''/ltc-costs-nyl-exp/api/costs'',
        d_description = ''LTC Costs API'',
        d_simulate_success = True, d_response_time_range = (80, 200) \<rparr>,
      \<lparr> d_name = ''LTC-Costs-Load'', d_method = ''POST'',
        d_endpoint = ''/ltc-costs-nyl-load/api/costs'',
        d_description = ''LTC Costs Load API'',
        d_simulate_success = False, d_response_time_range = (200, 400) \<rparr>,
      \<lparr> d_name = ''Producer-Search-P1.0'', d_method = ''GET'',
        d_endpoint = ''/producer-nyl-exp/api/1.0/producerProfile'',
        d_description = ''Producer Search API Version 1.0'',
        d_simulate_success = True, d_response_time_range = (120, 280) \<rparr>,
      \<lparr> d_name = ''Producer-Search-withEmail-P1.0'', d_method = ''GET'',
        d_endpoint = ''/producer-nyl-exp/api/1.0/producerProfile'',
        d_description = ''Producer Search with Email API Version 1.0'',
        d_simulate_success = True, d_response_time_range = (130, 290) \<rparr>,
      \<lparr> d_name = ''Producer-Search-P2.0'', d_method = ''GET'',
        d_endpoint = ''/producer-nyl-exp/api/2.0/producerProfile'',
        d_description = ''Producer Search API Version 2.0'',
        d_simulate_success = True, d_response_time_range = (110, 270) \<rparr>,
      \<lparr> d_name = ''Producer-Search-withEmail-P2.0'', d_method = ''GET'',
        d_endpoint = ''/producer-nyl-exp/api/2.0/producerProfile'',
        d_description = ''Producer Search with Email API Version 2.0'',
        d_simulate_success = True, d_response_time_range = (140, 300) \<rparr>,
      \<lparr> d_name = ''Producer-With-Mock'', d_method = ''GET'',
        d_endpoint = ''/producer-nyl-exp/api/mock/producerProfile'',
        d_description = ''Producer Mock API'',
        d_simulate_success = True, d_response_time_range = (50, 150) \<rparr>]"

text \<open>The attributes of a \<^verbatim>\<open>DemoAPIMonitor\<close> object.\<close>

record demo_monitor =
  dm_results :: "probe_result list"
  dm_base_url :: string
  dm_demo_apis :: "demo_api list"

definition init_demo_monitor :: demo_monitor where
  "init_demo_monitor =
     \<lparr> dm_results = [], dm_base_url = ''https://demo.cpvs-services.com'',
       dm_demo_apis = demo_apis \<rparr>"

text \<open>The outside world of one simulated call: the two clock readings and the values
  drawn from \<^verbatim>\<open>random\<close>.\<close>

record demo_env =
  de_now :: string
  de_response_time :: rat
  de_size :: nat
  de_id :: int
  de_data_now :: string
  de_records :: int

text \<open>\<^verbatim>\<open>DemoAPIMonitor.simulate_api_call\<close>.\<close>

definition simulate_api_call :: "demo_monitor \<Rightarrow> demo_api \<Rightarrow> demo_env \<Rightarrow> probe_result" where
  "simulate_api_call dm api env =
     (let result = initial_result (d_name api) (d_endpoint api) (d_method api)
                     (dm_base_url dm @ d_endpoint api) (d_description api) (de_now env)
      in if d_simulate_success api
         then result
                \<lparr> r_status := ''SUCCESS'',
                  r_status_code := Some 200,
                  r_response_time_ms := Some (round2 (de_response_time env)),
                  r_response_size_bytes := Some (de_size env),
                  r_content_type := Some ''application/json'',
                  r_response_data :=
                    Some (JObj
                      [(''status'', JStr ''ok''),
                       (''message'', JStr ''Demo data - API working correctly''),
                       (''data'', JObj
                          [(''id'', JNum (of_int (de_id env))),
                           (''timestamp'', JStr (de_data_now env)),
                           (''records'', JNum (of_int (de_records env)))])]) \<rparr>
         else result
                \<lparr> r_status := ''TIMEOUT'',
                  r_error := Some ''Request timed out - Demo simulation'' \<rparr>)"

text \<open>The loop of \<^verbatim>\<open>DemoAPIMonitor.run_all_apis\<close>, one descriptor after the other; the
  number is the position of the next descriptor, which selects its outside world.\<close>

fun demo_loop ::
  "demo_monitor \<Rightarrow> nat \<Rightarrow> (nat \<Rightarrow> demo_env) \<Rightarrow> demo_api list \<Rightarrow> demo_monitor" where
  "demo_loop dm i envs [] = dm"
| "demo_loop dm i envs (api # apis) =
     demo_loop (dm \<lparr> dm_results := dm_results dm @ [simulate_api_call dm api (envs i)] \<rparr>)
       (Suc i) envs apis"

definition demo_run_all_apis ::
  "demo_monitor \<Rightarrow> (nat \<Rightarrow> demo_env) \<Rightarrow> demo_monitor \<times> probe_result list" where
  "demo_run_all_apis dm envs =
     (let dm' = demo_loop dm 0 envs (dm_demo_apis dm) in (dm', dm_results dm'))"

text \<open>\<^verbatim>\<open>DemoAPIMonitor.generate_report\<close>: the text of the method of the monitor, with
  the key \<^verbatim>\<open>mode\<close> added to the summary.\<close>

definition demo_generate_report :: "demo_monitor \<Rightarrow> string \<Rightarrow> report" where
  "demo_generate_report dm now =
     (let total = length (dm_results dm);
          succ = length (filter (\<lambda>r. r_status r = ''SUCCESS'') (dm_results dm));
          fails = total - succ;
          avg = (if 0 < succ
                 then (let response_times =
                             map (\<lambda>r. the (r_response_time_ms r))
                               (filter (\<lambda>r. r_response_time_ms r \<noteq> None) (dm_results dm))
                       in if response_times \<noteq> []
                          then round2 (fl (float_sum response_times / of_nat (length response_times)))
                          else 0)
                 else 0)
      in \<lparr> summary =
             \<lparr> total_apis = total,
               successful = succ,
               failed = fails,
               success_rate =
                 (if 0 < total
                  then format_2f (fl (fl (of_nat succ / of_nat total) * 100)) @ ''%''
                  else ''0%''),
               average_response_time_ms = avg,
               execution_timestamp = now,
               base_url = Some (dm_base_url dm),
               mode = Some ''DEMO'' \<rparr>,
           detailed_results = sort_key r_name (dm_results dm) \<rparr>)"

text \<open>\<^verbatim>\<open>main\<close> of \<^verbatim>\<open>demo_monitor.py\<close> after the arguments are parsed.\<close>

definition demo_main ::
  "(nat \<Rightarrow> demo_env) \<Rightarrow> string \<Rightarrow> (report \<Rightarrow> py_error option) \<Rightarrow> (report \<Rightarrow> py_error option) \<Rightarrow> int" where
  "demo_main envs now save print =
     (let (dm, rs) = demo_run_all_apis init_demo_monitor envs;
          rep = demo_generate_report dm now
      in case save rep of
           Some e \<Rightarrow> 1
         | None \<Rightarrow>
             (case print rep of
                Some e \<Rightarrow> 1
              | None \<Rightarrow> if failed (summary rep) = 0 then 0 else 1))"

subsection \<open>The entry point of the email reporter\<close>

text \<open>\<^verbatim>\<open>main\<close> of \<^verbatim>\<open>email_report.py\<close> after the arguments are parsed.
  \<^verbatim>\<open>load_report\<close> exits with 1 when the file is missing or is not JSON (the \<open>Inl\<close>
  case). The subject says whether the report has failures, which is all that is kept of
  it here; \<^verbatim>\<open>send_email\<close> catches every exception and returns whether the message was
  sent, which the outside world decides.\<close>

definition email_main :: "py_error + report \<Rightarrow> (bool \<Rightarrow> bool) \<Rightarrow> int" where
  "email_main loaded send_email =
     (case loaded of
        Inl e \<Rightarrow> 1
      | Inr rep \<Rightarrow>
          (let failures_detected = (0 < failed (summary rep));
               success = send_email failures_detected
           in if success then 0 else 1))"
subsection \<open>Concrete runs\<close>

text \<open>A descriptor with the three required keys, a configuration listing descriptors,
  and a monitor constructed for it with the domain \<^verbatim>\<open>example.com\<close> set.\<close>

definition ex_api :: "string \<Rightarrow> api_config" where
  "ex_api nm =
     \<lparr> a_name = Some nm, a_method = Some ''GET'', a_endpoint = Some (''/'' @ nm),
       a_params = None, a_body = None, a_description = None \<rparr>"

definition ex_config :: "api_config list \<Rightarrow> config" where
  "ex_config apis =
     \<lparr> c_base_url = Some ''https://{{cpvs.services.domain}}'',
       c_monitoring_apis = Some apis, c_timeout = None \<rparr>"

definition ex_monitor :: "api_config list \<Rightarrow> monitor" where
  "ex_monitor apis =
     \<lparr> m_config = ex_config apis, m_results = [], m_base_url = Some ''https://example.com'' \<rparr>"

text \<open>A response with the given status code whose body decodes as given, and a world in
  which the network call ends as given after the given number of seconds.\<close>

definition ex_response :: "int \<Rightarrow> json_outcome \<Rightarrow> response" where
  "ex_response code j =
     \<lparr> resp_status_code = code, resp_content = ''{}'',
       resp_header_content_type = Some ''application/json'',
       resp_text = ''{}'', resp_json = j \<rparr>"

definition ex_env :: "net_outcome \<Rightarrow> rat \<Rightarrow> probe_env" where
  "ex_env out secs = \<lparr> e_now = ''2024-01-01T00:00:00'', e_send = (\<lambda>req. out), e_elapsed = secs \<rparr>"

definition ex_ok :: net_outcome where
  "ex_ok = Responded (ex_response 200 (JsonParsed (JObj [])))"

text \<open>The result that \<^verbatim>\<open>call_api\<close> builds in that world for such a descriptor when the
  answer is \<open>ex_ok\<close>, with the given latency.\<close>

definition ex_result :: "string \<Rightarrow> rat \<Rightarrow> probe_result" where
  "ex_result nm ms =
     \<lparr> r_name = nm, r_endpoint = ''/'' @ nm, r_method = ''GET'',
       r_url = ''https://example.com/'' @ nm, r_description = [],
       r_timestamp = ''2024-01-01T00:00:00'', r_status = ''SUCCESS'',
       r_status_code = Some 200, r_response_time_ms = Some ms,
       r_response_size_bytes = Some 2, r_content_type = Some ''application/json'',
       r_response_data = Some (JObj []), r_error = None \<rparr>"

text \<open>Three probes that answer after an eighth, an eighth and a quarter of a second,
  finishing in the order of submission, and the monitor after that run.\<close>

definition ex_three :: monitor where
  "ex_three =
     fst (run_all_apis (ex_monitor [ex_api ''B'', ex_api ''A'', ex_api ''C'']) 10
            (\<lambda>i. ex_env ex_ok (if i = 2 then 1 / 4 else 1 / 8)) [])"

text \<open>A response whose body cannot be decoded because the decoder gives up with an
  exception that is not \<^verbatim>\<open>json.JSONDecodeError\<close>, and a descriptor without the key
  \<^verbatim>\<open>endpoint\<close>.\<close>

definition ex_undecodable :: "int \<Rightarrow> net_outcome" where
  "ex_undecodable code =
     Responded (ex_response code
       (JsonRaises ''maximum recursion depth exceeded while decoding a JSON array''))"

definition ex_bad_api :: api_config where
  "ex_bad_api = (ex_api ''B'') \<lparr> a_endpoint := None \<rparr>"

text \<open>Two probes: the first answers after an eighth of a second, the second after half a
  second with a body that cannot be decoded.\<close>

definition ex_stale :: monitor where
  "ex_stale =
     fst (run_all_apis (ex_monitor [ex_api ''A'', ex_api ''B'']) 10
            (\<lambda>i. if i = 0 then ex_env ex_ok (1 / 8) else ex_env (ex_undecodable 200) (1 / 2)) [])"

text \<open>Nine descriptors; the probe of the fourth times out, the others answer 200 after an
  eighth of a second.\<close>

definition ex_nine :: monitor where
  "ex_nine =
     ex_monitor (map ex_api [''A1'', ''A2'', ''A3'', ''A4'', ''A5'', ''A6'', ''A7'', ''A8'', ''A9''])"

definition ex_nine_envs :: "nat \<Rightarrow> probe_env" where
  "ex_nine_envs i = ex_env (if i = 3 then Timeout else ex_ok) (1 / 8)"

text \<open>A world for \<^verbatim>\<open>main\<close>: the configuration lists one descriptor, its probe answers 200,
  printing works, and writing the report file does what the argument says.\<close>

definition ex_world :: "py_error option \<Rightarrow> world" where
  "ex_world save_result =
     \<lparr> w_config_file = Inr (ex_config [ex_api ''A'']),
       w_envs = (\<lambda>i. ex_env ex_ok (1 / 8)),
       w_sched = [],
       w_report_now = ''2024-01-01T00:00:09'',
       w_save = (\<lambda>rep. save_result),
       w_print = (\<lambda>rep. None) \<rparr>"


subsection \<open>Facts about rounding and formatting\<close>

lemma round_half_even_bounds:
  "\<bar>of_int (round_half_even x) - x\<bar> \<le> 1 / 2"
proof -
  define f where "f = \<lfloor>x\<rfloor>"
  define d where "d = x - of_int f"
  have x: "x = of_int f + d" by (simp add: d_def)
  have d0: "0 \<le> d" and d1: "d < 1" unfolding d_def f_def by linarith+
  have r: "round_half_even x = (if d < 1 / 2 then f else if 1 / 2 < d then f + 1 else if even f then f else f + 1)"
    unfolding round_half_even_def Let_def f_def d_def by simp
  show ?thesis
  proof (cases "d < 1 / 2")
    case True
    with r d0 x show ?thesis by simp
  next
    case False
    note nlt = this
    show ?thesis
    proof (cases "1 / 2 < d")
      case True
      with r nlt d1 x show ?thesis by simp
    next
      case False
      with nlt have "d = 1 / 2" by simp
      with r x show ?thesis by (simp split: if_splits)
    qed
  qed
qed

lemma round_half_even_of_int: "round_half_even (of_int n) = n"
  unfolding round_half_even_def Let_def by simp

lemma round_half_even_near:
  assumes "of_int k - 1 / 2 < x" and "x < of_int k + 1 / 2"
  shows "round_half_even x = k"
proof -
  have "\<bar>of_int (round_half_even x) - x\<bar> \<le> 1 / 2" by (rule round_half_even_bounds)
  then have "of_int (round_half_even x) - x \<le> 1 / 2" and "x - of_int (round_half_even x) \<le> 1 / 2"
    by linarith+
  with assms have "(of_int (round_half_even x) :: rat) < of_int k + 1"
    and "(of_int k :: rat) - 1 < of_int (round_half_even x)" by linarith+
  then have "round_half_even x < k + 1" and "k - 1 < round_half_even x"
    by (metis of_int_less_iff of_int_add of_int_1, metis of_int_less_iff of_int_diff of_int_1)
  then show ?thesis by simp
qed

lemma bit_length_bounds:
  "0 < n \<Longrightarrow> 2 ^ (bit_length n - 1) \<le> n \<and> n < 2 ^ bit_length n"
proof (induction n rule: bit_length.induct)
  case (1 n)
  show ?case
  proof (cases "n div 2 = 0")
    case True
    with 1 have "n = 1" by (simp add: div_eq_0_iff)
    then show ?thesis by (simp add: bit_length.simps)
  next
    case False
    then have p: "0 < n div 2" by simp
    from 1 have n0: "n \<noteq> 0" by simp
    from "1.IH" [OF n0 p]
    have ih: "2 ^ (bit_length (n div 2) - 1) \<le> n div 2" "n div 2 < 2 ^ bit_length (n div 2)"
      by simp_all
    have bl: "bit_length n = Suc (bit_length (n div 2))"
      using n0 by (subst bit_length.simps) simp
    have pos: "0 < bit_length (n div 2)"
      using p by (subst bit_length.simps) simp
    then have s: "2 ^ bit_length (n div 2) = 2 * (2::nat) ^ (bit_length (n div 2) - 1)"
      by (cases "bit_length (n div 2)") simp_all
    have lo: "2 ^ (bit_length n - 1) \<le> n"
    proof -
      have "(2::nat) ^ bit_length (n div 2) \<le> 2 * (n div 2)" using ih(1) s by simp
      also have "\<dots> \<le> n" by simp
      finally show ?thesis unfolding bl by simp
    qed
    have hi: "n < 2 ^ bit_length n"
    proof -
      have "Suc (n div 2) \<le> 2 ^ bit_length (n div 2)" using ih(2) by simp
      then have "2 * Suc (n div 2) \<le> 2 * 2 ^ bit_length (n div 2)" by simp
      moreover have "n < 2 * Suc (n div 2)" by simp
      ultimately show ?thesis unfolding bl by simp
    qed
    from lo hi show ?thesis by simp
  qed
qed

lemma bit_length_pos: "0 < n \<Longrightarrow> 0 < bit_length n"
  by (subst bit_length.simps) simp

lemma ilog2_bounds:
  assumes "0 < x"
  shows "2 powi ilog2 x \<le> x \<and> x < 2 powi (ilog2 x + 1)"
proof -
  obtain a b where q: "quotient_of x = (a, b)" by (cases "quotient_of x")
  have b: "0 < b" using q by (rule quotient_of_denom_pos)
  have x: "x = of_int a / of_int b" using q by (rule quotient_of_div)
  have a: "0 < a"
  proof (rule ccontr)
    assume "\<not> 0 < a"
    then have "of_int a / of_int b \<le> (0::rat)" using b by (simp add: divide_le_0_iff)
    with assms x show False by simp
  qed
  define la where "la = bit_length (nat a)"
  define lb where "lb = bit_length (nat b)"
  define k where "k = int la - int lb"
  have la: "0 < la" and lb: "0 < lb" unfolding la_def lb_def using a b by (simp_all add: bit_length_pos)
  from bit_length_bounds [of "nat a"] a
  have a1: "2 ^ (la - 1) \<le> nat a" and a2: "nat a < 2 ^ la" unfolding la_def by simp_all
  from bit_length_bounds [of "nat b"] b
  have b1: "2 ^ (lb - 1) \<le> nat b" and b2: "nat b < 2 ^ lb" unfolding lb_def by simp_all
  have ra: "(of_int a :: rat) = of_nat (nat a)" using a by simp
  have rb: "(of_int b :: rat) = of_nat (nat b)" using b by simp
  have A1: "(2::rat) ^ (la - 1) \<le> of_int a" unfolding ra using a1 by (metis of_nat_le_iff of_nat_numeral of_nat_power)
  have A2: "(of_int a :: rat) < 2 ^ la" unfolding ra using a2 by (metis of_nat_less_iff of_nat_numeral of_nat_power)
  have B1: "(2::rat) ^ (lb - 1) \<le> of_int b" unfolding rb using b1 by (metis of_nat_le_iff of_nat_numeral of_nat_power)
  have B2: "(of_int b :: rat) < 2 ^ lb" unfolding rb using b2 by (metis of_nat_less_iff of_nat_numeral of_nat_power)
  have bp: "(0::rat) < of_int b" using b by simp
  have ap: "(0::rat) < of_int a" using a by simp
  have up: "x < 2 powi (k + 1)"
  proof -
    have "x * 2 ^ (lb - 1) \<le> x * of_int b" using B1 assms by simp
    also have "\<dots> = of_int a" unfolding x using bp by simp
    also have "\<dots> < 2 ^ la" by (rule A2)
    finally have "x < 2 ^ la / 2 ^ (lb - 1)" by (simp add: pos_less_divide_eq)
    also have "\<dots> = 2 powi (int la) / 2 powi (int (lb - 1))" by simp
    also have "\<dots> = 2 powi (int la - int (lb - 1))" by (simp add: power_int_diff)
    also have "int la - int (lb - 1) = k + 1" unfolding k_def using lb by simp
    finally show ?thesis .
  qed
  have low: "2 powi (k - 1) < x"
  proof -
    have "2 ^ (la - 1) \<le> (of_int a :: rat)" by (rule A1)
    also have "\<dots> = x * of_int b" unfolding x using bp by simp
    also have "\<dots> < x * 2 ^ lb" using B2 assms by simp
    finally have "2 ^ (la - 1) / 2 ^ lb < x" by (simp add: pos_divide_less_eq)
    moreover have "(2::rat) ^ (la - 1) / 2 ^ lb = 2 powi (int (la - 1)) / 2 powi (int lb)" by simp
    moreover have "\<dots> = 2 powi (int (la - 1) - int lb)" by (simp add: power_int_diff)
    moreover have "int (la - 1) - int lb = k - 1" unfolding k_def using la by simp
    ultimately show ?thesis by simp
  qed
  have il: "ilog2 x = (if 2 powi k \<le> x then k else k - 1)"
    unfolding ilog2_def q k_def la_def lb_def by simp
  show ?thesis
  proof (cases "2 powi k \<le> x")
    case True
    with il up show ?thesis by simp
  next
    case False
    with il low show ?thesis by simp
  qed
qed

lemma two_powi_pos: "(0::rat) < 2 powi e"
  by (simp add: zero_less_power_int)

lemma fl_error: "\<bar>fl x - x\<bar> \<le> \<bar>x\<bar> / 2 ^ 53"
proof (cases "x = 0")
  case True
  then show ?thesis by (simp add: fl_def)
next
  case False
  define e where "e = ilog2 \<bar>x\<bar> - 52"
  define p :: rat where "p = 2 powi e"
  define y where "y = x / p"
  have pp: "0 < p" unfolding p_def by (rule two_powi_pos)
  have f: "fl x = of_int (round_half_even y) * p"
    using False unfolding fl_def Let_def y_def p_def e_def by simp
  have xy: "x = y * p" unfolding y_def using pp by simp
  have "\<bar>of_int (round_half_even y) - y\<bar> \<le> 1 / 2" by (rule round_half_even_bounds)
  then have "\<bar>of_int (round_half_even y) - y\<bar> * p \<le> 1 / 2 * p"
    using pp by (simp only: mult_le_cancel_right_pos)
  moreover have "\<bar>fl x - x\<bar> = \<bar>of_int (round_half_even y) - y\<bar> * p"
  proof -
    have "fl x - x = of_int (round_half_even y) * p - y * p"
      unfolding f using xy by simp
    then have "fl x - x = (of_int (round_half_even y) - y) * p"
      by (simp only: left_diff_distrib)
    then show ?thesis using pp by (simp add: abs_mult)
  qed
  ultimately have 1: "\<bar>fl x - x\<bar> \<le> p / 2" by simp
  have "0 < \<bar>x\<bar>" using False by simp
  from ilog2_bounds [OF this] have "2 powi (e + 52) \<le> \<bar>x\<bar>" unfolding e_def by simp
  then have "p * 2 ^ 52 \<le> \<bar>x\<bar>" unfolding p_def by (simp add: power_int_add)
  then have "p / 2 \<le> \<bar>x\<bar> / 2 ^ 53" by simp
  with 1 show ?thesis by simp
qed

lemma fl_exact:
  assumes "\<bar>m\<bar> < 2 ^ 53"
  shows "fl (of_int m * 2 powi j) = of_int m * 2 powi j"
proof (cases "m = 0")
  case True
  then show ?thesis by (simp add: fl_def)
next
  case False
  define x :: rat where "x = of_int m * 2 powi j"
  define e where "e = ilog2 \<bar>x\<bar> - 52"
  have x0: "x \<noteq> 0" unfolding x_def using False by simp
  then have "0 < \<bar>x\<bar>" by simp
  from ilog2_bounds [OF this] have lo: "2 powi (e + 52) \<le> \<bar>x\<bar>" unfolding e_def by simp
  have ax: "\<bar>x\<bar> = of_int \<bar>m\<bar> * 2 powi j"
    unfolding x_def using two_powi_pos [of j] by (simp add: abs_mult)
  have "(of_int \<bar>m\<bar> :: rat) < 2 ^ 53" using assms by (metis of_int_less_iff of_int_numeral of_int_power)
  then have "\<bar>x\<bar> < 2 ^ 53 * 2 powi j" unfolding ax using two_powi_pos [of j] by simp
  also have "\<dots> = 2 powi (j + 53)" by (simp add: power_int_add)
  finally have "(2::rat) powi (e + 52) < 2 powi (j + 53)" using lo by simp
  then have "e + 52 < j + 53"
    by (metis not_less power_int_increasing one_le_numeral)
  then have ej: "e \<le> j" by simp
  define n where "n = m * 2 ^ nat (j - e)"
  have "(2::rat) powi j = 2 powi (j - e) * 2 powi e" by (simp flip: power_int_add)
  also have "(2::rat) powi (j - e) = 2 ^ nat (j - e)" using ej by (simp add: power_int_nonneg_exp)
  finally have pj: "(2::rat) powi j = 2 ^ nat (j - e) * 2 powi e" .
  have xn: "x = of_int n * 2 powi e" unfolding x_def n_def pj by simp
  then have "x / 2 powi e = of_int n" using two_powi_pos [of e] by simp
  then have "round_half_even (x / 2 powi e) = n" by (simp only: round_half_even_of_int)
  then have "fl x = of_int n * 2 powi e"
    using x0 unfolding fl_def Let_def e_def by simp
  then show ?thesis unfolding xn [symmetric] unfolding x_def .
qed

lemma fl_of_int: "\<bar>m\<bar> < 2 ^ 53 \<Longrightarrow> fl (of_int m) = of_int m"
  using fl_exact [of m 0] by simp

lemma fl_numeral: "\<bar>numeral n :: int\<bar> < 2 ^ 53 \<Longrightarrow> fl (numeral n) = numeral n"
  using fl_of_int [of "numeral n"] by simp


lemma round_half_even_nonneg: "0 \<le> x \<Longrightarrow> 0 \<le> round_half_even x"
proof -
  assume "0 \<le> x"
  then have "0 \<le> \<lfloor>x\<rfloor>" by simp
  then show ?thesis unfolding round_half_even_def Let_def by simp
qed

lemma of_char_digit_char: "d < 10 \<Longrightarrow> (of_char (digit_char d) :: nat) = 48 + d"
proof -
  assume "d < 10"
  then have "d \<in> {0,1,2,3,4,5,6,7,8,9}" by auto
  then show ?thesis by (auto simp: digit_char_def)
qed

lemma is_digit_digit_char: "d < 10 \<Longrightarrow> is_digit (digit_char d)"
  by (simp add: is_digit_def of_char_digit_char)

lemma read_nat_snoc: "read_nat (s @ [c]) = 10 * read_nat s + (of_char c - 48)"
  by (simp add: read_nat_def)

lemma read_show_nat: "read_nat (show_nat n) = n"
proof (induction n rule: show_nat.induct)
  case (1 n)
  show ?case
  proof (cases "n < 10")
    case True
    then show ?thesis
      by (subst show_nat.simps) (simp add: read_nat_def of_char_digit_char)
  next
    case False
    with 1 have "read_nat (show_nat (n div 10)) = n div 10" by simp
    with False show ?thesis
      by (subst show_nat.simps) (simp add: read_nat_snoc of_char_digit_char)
  qed
qed

lemma digits_show_nat: "\<forall>c \<in> set (show_nat n). is_digit c"
proof (induction n rule: show_nat.induct)
  case (1 n)
  show ?case
  proof (cases "n < 10")
    case True
    then show ?thesis
      by (subst show_nat.simps) (simp add: is_digit_digit_char)
  next
    case False
    with 1 have "\<forall>c \<in> set (show_nat (n div 10)). is_digit c" by simp
    with False show ?thesis
      by (subst show_nat.simps) (simp add: is_digit_digit_char)
  qed
qed

lemma show_nat_nonempty: "show_nat n \<noteq> []"
  by (subst show_nat.simps) simp


lemma abs_scale_100:
  fixes x y :: rat
  assumes "\<bar>y - x * 100\<bar> \<le> 1 / 2"
  shows "\<bar>y / 100 - x\<bar> \<le> 1 / 200"
proof -
  define e where "e = y - x * 100"
  have y: "y = e + x * 100" by (simp add: e_def)
  have d: "y / 100 - x = e / 100" unfolding y by (simp add: add_divide_distrib)
  from assms have "e \<le> 1 / 2" and "- (1 / 2) \<le> e" unfolding e_def by linarith+
  then have "\<bar>e / 100\<bar> \<le> 1 / 200" by linarith
  then show ?thesis by (simp only: d)
qed

lemma read_nat_two_digits:
  "a < 10 \<Longrightarrow> b < 10 \<Longrightarrow> read_nat [digit_char a, digit_char b] = 10 * a + b"
  by (simp add: read_nat_def of_char_digit_char)

lemma format_2f_nonneg:
  assumes "0 \<le> x"
  shows "\<exists>ip d1 d2. format_2f x = ip @ ''.'' @ [d1, d2] \<and> ip \<noteq> []
           \<and> (\<forall>c \<in> set ip. is_digit c) \<and> is_digit d1 \<and> is_digit d2
           \<and> \<bar>of_nat (read_nat ip) + of_nat (read_nat [d1, d2]) / 100 - x\<bar> \<le> 1 / 200"
proof -
  define q where "q = nat (round_half_even (\<bar>x\<bar> * 100))"
  define ip where "ip = show_nat (q div 100)"
  define d1 where "d1 = digit_char (q mod 100 div 10)"
  define d2 where "d2 = digit_char (q mod 10)"
  have fmt: "format_2f x = ip @ ''.'' @ [d1, d2]"
    using assms unfolding format_2f_def Let_def q_def ip_def d1_def d2_def by simp
  have a: "q mod 100 div 10 < 10" and b: "q mod 10 < 10" by simp_all
  have two: "read_nat [d1, d2] = q mod 100"
  proof -
    have "read_nat [d1, d2] = 10 * (q mod 100 div 10) + q mod 10"
      unfolding d1_def d2_def using a b by (rule read_nat_two_digits)
    also have "q mod 10 = q mod 100 mod 10"
      by (simp add: mod_mod_cancel)
    finally show ?thesis by simp
  qed
  have ipv: "read_nat ip = q div 100" by (simp add: ip_def read_show_nat)
  have "(of_nat (q div 100) :: rat) * 100 + of_nat (q mod 100) = of_nat (q div 100 * 100 + q mod 100)"
    by (simp only: of_nat_add of_nat_mult of_nat_numeral)
  also have "\<dots> = of_nat q" by simp
  finally have val: "(of_nat (read_nat ip) :: rat) + of_nat (read_nat [d1, d2]) / 100 = of_nat q / 100"
    unfolding two ipv by (simp add: field_simps)
  have qi: "(of_nat q :: rat) = of_int (round_half_even (x * 100))"
  proof -
    have "0 \<le> round_half_even (x * 100)" using assms by (simp add: round_half_even_nonneg)
    then show ?thesis using assms by (simp add: q_def)
  qed
  have "\<bar>of_int (round_half_even (x * 100)) - x * 100\<bar> \<le> 1 / 2"
    by (rule round_half_even_bounds)
  then have "\<bar>of_nat q / 100 - x\<bar> \<le> 1 / 200"
    unfolding qi by (rule abs_scale_100)
  then have bd: "\<bar>of_nat (read_nat ip) + of_nat (read_nat [d1, d2]) / 100 - x\<bar> \<le> 1 / 200"
    by (simp only: val)
  have "ip \<noteq> []" by (simp add: ip_def show_nat_nonempty)
  moreover have "\<forall>c \<in> set ip. is_digit c" unfolding ip_def by (rule digits_show_nat)
  moreover have "is_digit d1" unfolding d1_def using a by (rule is_digit_digit_char)
  moreover have "is_digit d2" unfolding d2_def using b by (rule is_digit_digit_char)
  ultimately show ?thesis using fmt bd by blast
qed

lemma fl_nonneg:
  assumes "0 \<le> x"
  shows "0 \<le> fl x"
proof (cases "x = 0")
  case True
  then show ?thesis by (simp add: fl_def)
next
  case False
  define e where "e = ilog2 \<bar>x\<bar> - 52"
  have "0 \<le> x / 2 powi e" using assms two_powi_pos [of e] by simp
  then have "0 \<le> round_half_even (x / 2 powi e)" by (rule round_half_even_nonneg)
  then have "(0::rat) \<le> of_int (round_half_even (x / 2 powi e)) * 2 powi e"
    using two_powi_pos [of e] by simp
  then show ?thesis using False unfolding fl_def Let_def e_def by simp
qed

lemma decimal2_of_int: "decimal2 (of_int k) = of_int k"
proof -
  have "(of_int k * 100 :: rat) = of_int (k * 100)" by simp
  then have "round_half_even (of_int k * 100) = k * 100"
    by (simp only: round_half_even_of_int)
  then show ?thesis by (simp add: decimal2_def)
qed

lemma round2_of_int: "\<bar>k\<bar> < 2 ^ 53 \<Longrightarrow> round2 (of_int k) = of_int k"
  by (simp only: round2_def decimal2_of_int fl_of_int)

lemma fl_rate_error:
  assumes "0 \<le> q"
  shows "\<bar>fl (fl q * 100) - q * 100\<bar> \<le> q * 100 * 3 / 2 ^ 53"
proof -
  define u :: rat where "u = 1 / 2 ^ 53"
  have u0: "0 \<le> u" and u1: "u \<le> 1" unfolding u_def by simp_all
  have p: "0 \<le> fl q" using assms by (rule fl_nonneg)
  have e1: "\<bar>fl q - q\<bar> \<le> q * u"
    using fl_error [of q] assms unfolding u_def by simp
  have e2: "\<bar>fl (fl q * 100) - fl q * 100\<bar> \<le> fl q * 100 * u"
    using fl_error [of "fl q * 100"] p unfolding u_def by simp
  from e1 have a: "fl q \<le> q + q * u" and b: "q - q * u \<le> fl q" by linarith+
  have "q * u \<le> q * 1" using u1 assms by (rule mult_left_mono)
  then have "fl q \<le> 2 * q" using a by simp
  then have "fl q * 100 * u \<le> 2 * q * 100 * u" using u0 by (simp add: mult_right_mono)
  with e2 have e3: "\<bar>fl (fl q * 100) - fl q * 100\<bar> \<le> 2 * q * 100 * u" by linarith
  from e1 have "\<bar>fl q * 100 - q * 100\<bar> \<le> q * 100 * u" by linarith
  with e3 have "\<bar>fl (fl q * 100) - q * 100\<bar> \<le> q * 100 * 3 * u" by linarith
  then show ?thesis unfolding u_def by simp
qed
subsection \<open>Facts about the aggregator\<close>

lemma summary_counts:
  "total_apis (summary (generate_report m now)) = length (m_results m)"
  "successful (summary (generate_report m now)) =
     length (filter (\<lambda>r. r_status r = ''SUCCESS'') (m_results m))"
  "failed (summary (generate_report m now)) =
     length (m_results m) - length (filter (\<lambda>r. r_status r = ''SUCCESS'') (m_results m))"
  by (simp_all add: generate_report_def Let_def)

lemma summary_success_rate:
  "success_rate (summary (generate_report m now)) =
     (if 0 < length (m_results m)
      then format_2f
             (fl (fl (of_nat (length (filter (\<lambda>r. r_status r = ''SUCCESS'') (m_results m)))
                        / of_nat (length (m_results m))) * 100)) @ ''%''
      else ''0%'')"
  by (simp add: generate_report_def Let_def)

lemma summary_average:
  "average_response_time_ms (summary (generate_report m now)) =
     (if 0 < length (filter (\<lambda>r. r_status r = ''SUCCESS'') (m_results m))
      then (let response_times =
                  map (\<lambda>r. the (r_response_time_ms r))
                    (filter (\<lambda>r. r_response_time_ms r \<noteq> None) (m_results m))
            in if response_times \<noteq> []
               then round2 (fl (float_sum response_times / of_nat (length response_times)))
               else 0)
      else 0)"
  by (simp add: generate_report_def Let_def)


lemma detailed_results_eq:
  "detailed_results (generate_report m now) = sort_key r_name (m_results m)"
  by (simp add: generate_report_def Let_def)

lemma map_sort_key: "map f (sort_key f xs) = sort (map f xs)"
  by (rule properties_for_sort [symmetric]) (simp_all add: sorted_sort_key)

lemma sorted_ABC: "sorted [''A'', ''B'', ''C'']"
  by simp




lemma ms_eighth: "round2 (fl 125) = 125"
  using fl_of_int [of 125] round2_of_int [of 125] by simp

lemma ms_quarter: "round2 (fl 250) = 250"
  using fl_of_int [of 250] round2_of_int [of 250] by simp

lemma ms_half: "round2 (fl 500) = 500"
  using fl_of_int [of 500] round2_of_int [of 500] by simp

lemma call_api_ok:
  "call_api (ex_monitor apis) (ex_api nm) (ex_env ex_ok secs) =
     Inr (ex_result nm (round2 (fl (secs * 1000))))"
  by (simp add: call_api_def ex_monitor_def ex_api_def ex_env_def ex_ok_def ex_response_def
      ex_result_def initial_result_def format_base_url_def build_request_def Let_def)

lemma call_api_undecodable:
  "call_api (ex_monitor apis) (ex_api nm) (ex_env (ex_undecodable code) secs) =
     Inr ((ex_result nm (round2 (fl (secs * 1000))))
            \<lparr> r_status := ''ERROR'', r_status_code := Some code, r_response_data := None,
              r_error := Some ''maximum recursion depth exceeded while decoding a JSON array'' \<rparr>)"
  by (simp add: call_api_def ex_monitor_def ex_api_def ex_env_def ex_undecodable_def
      ex_response_def ex_result_def initial_result_def format_base_url_def build_request_def
      Let_def)

lemma ex_monitor_simps:
  "c_monitoring_apis (m_config (ex_monitor apis)) = Some apis"
  "m_results (ex_monitor apis) = []"
  "m_base_url (ex_monitor apis) = Some ''https://example.com''"
  by (simp_all add: ex_monitor_def ex_config_def)

lemma enumerate_two: "enumerate 0 [a, b] = [(0, a), (1, b)]"
  by (simp add: enumerate_eq_zip upt_rec)

lemma enumerate_three: "enumerate 0 [a, b, c] = [(0, a), (1, b), (2, c)]"
  by (simp add: enumerate_eq_zip upt_rec)

lemma ex_three_results:
  "m_results ex_three = [ex_result ''B'' 125, ex_result ''A'' 125, ex_result ''C'' 250]"
  unfolding ex_three_def run_all_apis_def
  by (simp add: ex_monitor_simps enumerate_three call_api_ok ms_eighth ms_quarter)

lemma ex_stale_results:
  "m_results ex_stale =
     [ex_result ''A'' 125,
      (ex_result ''B'' 500)
        \<lparr> r_status := ''ERROR'', r_status_code := Some 200, r_response_data := None,
          r_error := Some ''maximum recursion depth exceeded while decoding a JSON array'' \<rparr>]"
  unfolding ex_stale_def run_all_apis_def
  by (simp add: ex_monitor_simps enumerate_two call_api_ok call_api_undecodable ms_eighth ms_half)

lemma ex_result_simps:
  "r_name (ex_result nm ms) = nm"
  "r_status (ex_result nm ms) = ''SUCCESS''"
  "r_response_time_ms (ex_result nm ms) = Some ms"
  "r_status_code (ex_result nm ms) = Some 200"
  "r_error (ex_result nm ms) = None"
  by (simp_all add: ex_result_def)

lemma format_2f_100: "format_2f 100 = ''100.00''"
proof -
  have e: "(\<bar>100 :: rat\<bar> * 100) = of_int 10000" by simp
  have h: "round_half_even (\<bar>100\<bar> * 100) = 10000"
    unfolding e by (rule round_half_even_of_int)
  have s: "show_nat 100 = ''100''" by (simp add: show_nat.simps digit_char_def)
  show ?thesis unfolding format_2f_def Let_def h by (simp add: s digit_char_def)
qed

lemma float_rate_one: "fl (fl 1 * 100) = 100"
  using fl_of_int [of 1] fl_of_int [of 100] by simp

lemma ex_stale_average:
  "average_response_time_ms (summary (generate_report ex_stale now)) = 625 / 2"
proof -
  have s: "float_sum [125, 500] = 625"
    using fl_of_int [of 125] fl_of_int [of 625] by (simp add: float_sum_def)
  have "(625 / 2 :: rat) = of_int 625 * 2 powi (- 1)" by simp
  then have h: "fl (625 / 2) = 625 / 2" using fl_exact [of 625 "- 1"] by simp
  have "(625 / 2 * 100 :: rat) = of_int 31250" by simp
  then have "round_half_even (625 / 2 * 100) = 31250" by (simp only: round_half_even_of_int)
  then have d: "decimal2 (625 / 2) = 625 / 2" by (simp add: decimal2_def)
  have r: "round2 (625 / 2) = 625 / 2" unfolding round2_def d h by (rule refl)
  show ?thesis
    by (simp add: summary_average ex_stale_results ex_result_def Let_def s h r)
qed
subsection \<open>The float sum of four latencies in two orders\<close>






















subsection \<open>Facts about the probe executor\<close>

lemma call_api_classified:
  assumes "a_name api = Some nm" and "a_method api = Some meth" and "a_endpoint api = Some ep"
  shows "\<exists>r. call_api m api env = Inr r \<and> r_name r = nm
           \<and> (case e_send env
                      (build_request (m_config m) meth (format_base_url (m_base_url m) @ ep)
                         (case a_params api of None \<Rightarrow> [] | Some p \<Rightarrow> p)
                         (case a_body api of None \<Rightarrow> JObj [] | Some b \<Rightarrow> b)) of
                 Responded resp \<Rightarrow>
                   (case resp_json resp of
                      JsonRaises e \<Rightarrow> r_status r = ''ERROR'' \<and> r_error r = Some e
                    | _ \<Rightarrow> r_status r = ''SUCCESS''
                           \<and> r_status_code r = Some (resp_status_code resp)
                           \<and> r_error r = None)
               | Timeout \<Rightarrow> r_status r = ''TIMEOUT'' \<and> r_error r = Some ''Request timed out''
               | ConnectionError e \<Rightarrow> r_status r = ''CONNECTION_ERROR'' \<and> r_error r = Some e
               | Raises e \<Rightarrow> r_status r = ''ERROR'' \<and> r_error r = Some e)"
  unfolding call_api_def Let_def
  by (simp add: assms initial_result_def split: net_outcome.split json_outcome.split)

lemma call_api_status_set:
  assumes "call_api m api env = Inr r"
  shows "r_status r \<in> {''SUCCESS'', ''TIMEOUT'', ''CONNECTION_ERROR'', ''ERROR''}"
  using assms unfolding call_api_def Let_def
  by (auto simp: initial_result_def split: option.splits net_outcome.splits json_outcome.splits)

lemma call_api_error_is_KeyError:
  assumes "call_api m api env = Inl e"
  shows "\<exists>k. e = KeyError k"
  using assms unfolding call_api_def Let_def
  by (auto split: option.splits net_outcome.splits json_outcome.splits)

lemma call_api_missing_key:
  assumes "a_name api = None \<or> a_method api = None \<or> a_endpoint api = None"
  shows "\<exists>k. call_api m api env = Inl (KeyError k)"
  using assms unfolding call_api_def
  by (auto split: option.splits)


lemma mset_as_completed: "mset (as_completed sched xs) = mset xs"
proof (induction sched xs rule: as_completed.induct)
  case (1 sched)
  show ?case by simp
next
  case (2 x xs)
  show ?case by simp
next
  case (3 k ks x xs)
  define i where "i = k mod length (x # xs)"
  have il: "i < length (x # xs)" unfolding i_def by simp
  have split: "x # xs = take i (x # xs) @ (x # xs) ! i # drop (Suc i) (x # xs)"
    using il by (rule id_take_nth_drop)
  have ih: "mset (as_completed ks (take i (x # xs) @ drop (Suc i) (x # xs)))
          = mset (take i (x # xs) @ drop (Suc i) (x # xs))"
    using 3 [of i] unfolding i_def by simp
  have "mset (as_completed (k # ks) (x # xs))
      = {#(x # xs) ! i#} + mset (take i (x # xs) @ drop (Suc i) (x # xs))"
    using ih unfolding i_def by (simp add: Let_def)
  also have "\<dots> = mset (take i (x # xs) @ (x # xs) ! i # drop (Suc i) (x # xs))"
    by simp
  also have "\<dots> = mset (x # xs)" using split by simp
  finally show ?case .
qed

lemma set_as_completed: "set (as_completed sched xs) = set xs"
  using mset_as_completed [of sched xs] by (rule mset_eq_setD)

lemma collect_all_results:
  "collect m (map Inr rs) = (m \<lparr> m_results := m_results m @ rs \<rparr>, Inr (m_results m @ rs))"
  by (induction rs arbitrary: m) simp_all

lemma collect_raises:
  assumes "Inl e \<in> set fs"
  shows "\<exists>m' e'. collect m fs = (m', Inl e') \<and> Inl e' \<in> set fs"
  using assms
proof (induction fs arbitrary: m)
  case Nil
  then show ?case by simp
next
  case (Cons f fs)
  show ?case
  proof (cases f)
    case (Inl e0)
    then show ?thesis by simp
  next
    case (Inr r)
    with Cons.prems have "Inl e \<in> set fs" by simp
    from Cons.IH [OF this, of "m \<lparr> m_results := m_results m @ [r] \<rparr>"] Inr
    show ?thesis by auto
  qed
qed

lemma all_Inr_map:
  assumes "\<forall>f \<in> set fs. \<exists>r. f = Inr r"
  shows "fs = map Inr (map projr fs)"
  using assms by (induction fs) auto


lemma run_all_apis_unfold:
  assumes "c_monitoring_apis (m_config m) = Some apis" and "0 < max_workers"
  shows "run_all_apis m max_workers envs sched =
           collect m (as_completed sched
             (map (\<lambda>(i, api). call_api m api (envs i)) (enumerate 0 apis)))"
  using assms by (simp add: run_all_apis_def)

lemma run_all_apis_wellformed:
  assumes cfg: "c_monitoring_apis (m_config m) = Some apis"
    and wf: "\<forall>a \<in> set apis. a_name a \<noteq> None \<and> a_method a \<noteq> None \<and> a_endpoint a \<noteq> None"
    and w: "0 < max_workers"
  shows "\<exists>new. run_all_apis m max_workers envs sched
                  = (m \<lparr> m_results := m_results m @ new \<rparr>, Inr (m_results m @ new))
           \<and> mset (map Inr new)
               = mset (map (\<lambda>(i, api). call_api m api (envs i)) (enumerate 0 apis))"
proof -
  define futs where "futs = map (\<lambda>(i, api). call_api m api (envs i)) (enumerate 0 apis)"
  have ok: "\<forall>f \<in> set futs. \<exists>r. f = Inr r"
  proof
    fix f assume "f \<in> set futs"
    then obtain i a where ia: "(i, a) \<in> set (enumerate 0 apis)" and f: "f = call_api m a (envs i)"
      unfolding futs_def by auto
    from ia have "a \<in> set apis" by (auto simp: in_set_enumerate_eq)
    with wf obtain nm meth ep where "a_name a = Some nm" "a_method a = Some meth" "a_endpoint a = Some ep"
      by auto
    from call_api_classified [OF this, of m "envs i"] f show "\<exists>r. f = Inr r" by blast
  qed
  define finished where "finished = as_completed sched futs"
  have "\<forall>f \<in> set finished. \<exists>r. f = Inr r" using ok unfolding finished_def set_as_completed .
  then have d: "finished = map Inr (map projr finished)" by (rule all_Inr_map)
  define new where "new = map projr finished"
  have "run_all_apis m max_workers envs sched = collect m finished"
    unfolding finished_def futs_def using cfg w by (rule run_all_apis_unfold)
  also have "\<dots> = collect m (map Inr new)" using d unfolding new_def by simp
  also have "\<dots> = (m \<lparr> m_results := m_results m @ new \<rparr>, Inr (m_results m @ new))"
    by (rule collect_all_results)
  finally have r: "run_all_apis m max_workers envs sched
                  = (m \<lparr> m_results := m_results m @ new \<rparr>, Inr (m_results m @ new))" .
  have "mset (map Inr new) = mset finished" using d unfolding new_def by simp
  also have "\<dots> = mset futs" unfolding finished_def by (rule mset_as_completed)
  finally have "mset (map Inr new) = mset futs" .
  with r show ?thesis unfolding futs_def by blast
qed



lemma call_api_timeout_fields:
  assumes "call_api m api env = Inr r" and "r_status r = ''TIMEOUT''"
  shows "r_status_code r = None \<and> r_error r = Some ''Request timed out''"
  using assms unfolding call_api_def Let_def
  by (auto simp: initial_result_def split: option.splits net_outcome.splits json_outcome.splits)

lemma call_api_answers:
  assumes "a_name api \<noteq> None" and "a_method api \<noteq> None" and "a_endpoint api \<noteq> None"
    and "\<forall>req. e_send env req = Responded resp" and "\<forall>e. resp_json resp \<noteq> JsonRaises e"
  shows "\<exists>r. call_api m api env = Inr r \<and> r_status r = ''SUCCESS''
           \<and> r_status_code r = Some (resp_status_code resp)"
  using assms unfolding call_api_def Let_def
  by (auto simp: initial_result_def split: option.splits json_outcome.splits)

lemma call_api_times_out:
  assumes "a_name api \<noteq> None" and "a_method api \<noteq> None" and "a_endpoint api \<noteq> None"
    and "\<forall>req. e_send env req = Timeout"
  shows "\<exists>r. call_api m api env = Inr r \<and> r_status r = ''TIMEOUT'' \<and> r_status_code r = None
           \<and> Some (r_name r) = a_name api"
  using assms unfolding call_api_def Let_def
  by (auto simp: initial_result_def split: option.splits)

lemma length_filter_results:
  assumes "mset (map Inr new) = mset futs"
  shows "length (filter P new)
       = length (filter (\<lambda>f. case f of Inl e \<Rightarrow> False | Inr r \<Rightarrow> P r) futs)"
proof -
  define Q :: "'a + 'b \<Rightarrow> bool" where "Q = (\<lambda>f. case f of Inl e \<Rightarrow> False | Inr r \<Rightarrow> P r)"
  have "filter Q (map Inr new) = map Inr (filter P new)"
    by (induction new) (simp_all add: Q_def)
  then have "length (filter P new) = length (filter Q (map Inr new))" by simp
  also have "\<dots> = size (filter_mset Q (mset (map Inr new)))"
    by (simp only: mset_filter [symmetric] size_mset)
  also have "\<dots> = size (filter_mset Q (mset futs))" by (simp only: assms)
  also have "\<dots> = length (filter Q futs)"
    by (simp only: mset_filter [symmetric] size_mset)
  finally show ?thesis unfolding Q_def .
qed

lemma length_filter_neq_upt:
  assumes "k < n"
  shows "length (filter (\<lambda>i. i \<noteq> k) [0..<n]) = n - 1"
proof -
  have "length (filter (\<lambda>i. i \<noteq> k) [0..<n]) = card ({i. i \<noteq> k} \<inter> set [0..<n])"
    by (rule distinct_length_filter) simp
  also have "{i. i \<noteq> k} \<inter> set [0..<n] = {0..<n} - {k}" by auto
  also have "card ({0..<n} - {k}) = n - 1" using assms by simp
  finally show ?thesis .
qed

lemma map_fst_filter: "map fst (filter (\<lambda>(i, a). P i) ys) = filter P (map fst ys)"
  by (induction ys) auto

lemma length_filter_enumerate:
  "length (filter (\<lambda>(i, a). P i) (enumerate 0 xs)) = length (filter P [0..<length xs])"
proof -
  have "length (filter (\<lambda>(i, a). P i) (enumerate 0 xs))
      = length (map fst (filter (\<lambda>(i, a). P i) (enumerate 0 xs)))" by simp
  also have "\<dots> = length (filter P (map fst (enumerate 0 xs)))"
    by (simp only: map_fst_filter)
  finally show ?thesis by simp
qed

lemma format_2f_near_8889:
  assumes "\<bar>v - 800 / 9\<bar> \<le> 1 / 1000"
  shows "format_2f v = ''88.89''"
proof -
  from assms have lo: "800 / 9 - 1 / 1000 \<le> v" and hi: "v \<le> 800 / 9 + 1 / 1000"
    by linarith+
  have v0: "0 \<le> v" using lo by linarith
  have "8889 - 1 / 2 < v * 100" using lo by linarith
  then have a: "of_int 8889 - 1 / 2 < v * 100" by simp
  have "v * 100 < 8889 + 1 / 2" using hi by linarith
  then have b: "v * 100 < of_int 8889 + 1 / 2" by simp
  from a b have "round_half_even (v * 100) = 8889" by (rule round_half_even_near)
  then have h: "round_half_even (\<bar>v\<bar> * 100) = 8889" using v0 by simp
  have s: "show_nat 88 = ''88''" by (simp add: show_nat.simps digit_char_def)
  show ?thesis unfolding format_2f_def Let_def h using v0 by (simp add: s digit_char_def)
qed

lemma float_rate_eight_ninths: "format_2f (fl (fl (8 / 9) * 100)) = ''88.89''"
proof -
  have "\<bar>fl (fl (8 / 9) * 100) - 8 / 9 * 100\<bar> \<le> 8 / 9 * 100 * 3 / 2 ^ 53"
    by (rule fl_rate_error) simp
  then have "\<bar>fl (fl (8 / 9) * 100) - 800 / 9\<bar> \<le> 1 / 1000" by simp
  then show ?thesis by (rule format_2f_near_8889)
qed

subsection \<open>Facts about the entry points\<close>

lemma set_domain_example:
  "set_domain \<lparr> m_config = ex_config apis, m_results = [], m_base_url = None \<rparr> ''example.com''
     = Inr (ex_monitor apis)"
  by (simp add: set_domain_def ex_config_def ex_monitor_def)

lemma simulate_status:
  "r_status (simulate_api_call dm api env)
     = (if d_simulate_success api then ''SUCCESS'' else ''TIMEOUT'')"
  by (simp add: simulate_api_call_def Let_def)

lemma demo_loop_status:
  "map r_status (dm_results (demo_loop dm i envs apis))
     = map r_status (dm_results dm)
       @ map (\<lambda>a. if d_simulate_success a then ''SUCCESS'' else ''TIMEOUT'') apis"
proof (induction apis arbitrary: dm i)
  case Nil
  show ?case by simp
next
  case (Cons a apis)
  show ?case
    unfolding demo_loop.simps Cons.IH by (simp add: simulate_status)
qed

lemma length_filter_status:
  "length (filter (\<lambda>r. r_status r = s) rs) = length (filter (\<lambda>x. x = s) (map r_status rs))"
  by (simp add: filter_map comp_def)

lemma demo_statuses:
  "map r_status (dm_results (fst (demo_run_all_apis init_demo_monitor envs)))
     = [''SUCCESS'', ''SUCCESS'', ''SUCCESS'', ''TIMEOUT'', ''SUCCESS'', ''SUCCESS'',
        ''SUCCESS'', ''SUCCESS'', ''SUCCESS'']"
proof -
  have a: "dm_demo_apis init_demo_monitor = demo_apis" and r: "dm_results init_demo_monitor = []"
    by (simp_all add: init_demo_monitor_def)
  have s: "map d_simulate_success demo_apis
      = [True, True, True, False, True, True, True, True, True]"
    by (simp add: demo_apis_def)
  have "map (\<lambda>a. if d_simulate_success a then ''SUCCESS'' else ''TIMEOUT'') demo_apis
      = map (\<lambda>b. if b then ''SUCCESS'' else ''TIMEOUT'') (map d_simulate_success demo_apis)"
    by (simp add: comp_def)
  also have "\<dots> = [''SUCCESS'', ''SUCCESS'', ''SUCCESS'', ''TIMEOUT'', ''SUCCESS'', ''SUCCESS'',
        ''SUCCESS'', ''SUCCESS'', ''SUCCESS'']"
    unfolding s by simp
  finally show ?thesis
    unfolding demo_run_all_apis_def Let_def fst_conv demo_loop_status a r by simp
qed

lemma demo_failed:
  "failed (summary (demo_generate_report (fst (demo_run_all_apis init_demo_monitor envs)) now)) = 1"
proof -
  define dm where "dm = fst (demo_run_all_apis init_demo_monitor envs)"
  have st: "map r_status (dm_results dm)
     = [''SUCCESS'', ''SUCCESS'', ''SUCCESS'', ''TIMEOUT'', ''SUCCESS'', ''SUCCESS'',
        ''SUCCESS'', ''SUCCESS'', ''SUCCESS'']"
    unfolding dm_def by (rule demo_statuses)
  then have "length (map r_status (dm_results dm)) = 9" by simp
  then have l: "length (dm_results dm) = 9" by simp
  have s: "length (filter (\<lambda>r. r_status r = ''SUCCESS'') (dm_results dm)) = 8"
    unfolding length_filter_status st by simp
  have "failed (summary (demo_generate_report dm now))
      = length (dm_results dm) - length (filter (\<lambda>r. r_status r = ''SUCCESS'') (dm_results dm))"
    by (simp add: demo_generate_report_def Let_def)
  then show ?thesis unfolding dm_def [symmetric] l s by simp
qed

lemma main_exit:
  "main domain workers w = 0 \<longleftrightarrow>
     (\<exists>m0 m1 m2 rs. init_monitor (w_config_file w) = Inr m0
        \<and> set_domain m0 domain = Inr m1
        \<and> run_all_apis m1 workers (w_envs w) (w_sched w) = (m2, Inr rs)
        \<and> w_save w (generate_report m2 (w_report_now w)) = None
        \<and> w_print w (generate_report m2 (w_report_now w)) = None
        \<and> failed (summary (generate_report m2 (w_report_now w))) = 0)"
  unfolding main_def Let_def
  by (auto split: sum.splits option.splits prod.splits)

lemma main_codes: "main domain workers w \<in> {0, 1}"
  unfolding main_def Let_def
  by (auto split: sum.splits option.splits prod.splits)

lemma demo_main_exit: "demo_main envs now save print = 1"
proof -
  obtain dm rs where p: "demo_run_all_apis init_demo_monitor envs = (dm, rs)"
    by (cases "demo_run_all_apis init_demo_monitor envs")
  have "failed (summary (demo_generate_report dm now)) = 1"
    using demo_failed [of envs now] unfolding p by simp
  then show ?thesis
    unfolding demo_main_def p by (simp add: Let_def split: option.splits)
qed

lemma email_main_exit:
  "email_main loaded send_email = 0 \<longleftrightarrow>
     (\<exists>rep. loaded = Inr rep \<and> send_email (0 < failed (summary rep)))"
  unfolding email_main_def Let_def by (auto split: sum.splits)

lemma email_main_codes: "email_main loaded send_email \<in> {0, 1}"
  unfolding email_main_def Let_def by (auto split: sum.splits)

lemma ex_world_run:
  "run_all_apis (ex_monitor [ex_api ''A'']) 10 (\<lambda>i. ex_env ex_ok (1 / 8)) []
     = ((ex_monitor [ex_api ''A'']) \<lparr> m_results := [ex_result ''A'' 125] \<rparr>,
        Inr [ex_result ''A'' 125])"
  unfolding run_all_apis_def
  by (simp add: ex_monitor_simps call_api_ok ms_eighth enumerate_eq_zip)

lemma ex_world_failed:
  "failed (summary (generate_report
      ((ex_monitor [ex_api ''A'']) \<lparr> m_results := [ex_result ''A'' 125] \<rparr>) now)) = 0"
  by (simp add: summary_counts ex_result_simps)

lemma ex_world_main:
  "main ''example.com'' 10 (ex_world save_result) = (if save_result = None then 0 else 1)"
proof -
  have i: "init_monitor (w_config_file (ex_world s))
      = Inr \<lparr> m_config = ex_config [ex_api ''A''], m_results = [], m_base_url = None \<rparr>" for s
    by (simp add: ex_world_def init_monitor_def)
  have e: "w_envs (ex_world s) = (\<lambda>i. ex_env ex_ok (1 / 8))"
    and sc: "w_sched (ex_world s) = []"
    and sv: "w_save (ex_world s) rep = s"
    and pr: "w_print (ex_world s) rep = None" for s rep
    by (simp_all add: ex_world_def)
  show ?thesis
    unfolding main_def i e sc
    by (simp add: set_domain_example ex_world_run ex_world_failed sv pr Let_def
        split: option.split)
qed
section \<open>The claims about the report aggregator\<close>




text \<open>
  Claim C4. The success rate is the string \<^verbatim>\<open>0%\<close> when there are no results. Otherwise
  it is the float \<open>successful / total * 100\<close>, which is within 3 units of the 53rd binary
  place of the exact rate, formatted by \<open>format_2f\<close> and followed by a percent sign: an
  integer part that is not empty, a point and exactly two decimal digits, denoting a
  number within half a hundredth of that float.
\<close>

theorem success_rate_two_decimals:
  "(let s = summary (generate_report m now);
        rate = (of_nat (successful s) / of_nat (total_apis s) * 100 :: rat);
        v = fl (fl (of_nat (successful s) / of_nat (total_apis s)) * 100)
    in total_apis s = length (m_results m)
       \<and> successful s = length (filter (\<lambda>r. r_status r = ''SUCCESS'') (m_results m))
       \<and> (total_apis s = 0 \<longrightarrow> success_rate s = ''0%'')
       \<and> (0 < total_apis s \<longrightarrow>
            success_rate s = format_2f v @ ''%''
            \<and> \<bar>v - rate\<bar> \<le> rate * 3 / 2 ^ 53
            \<and> (\<exists>ip d1 d2. success_rate s = ip @ ''.'' @ [d1, d2] @ ''%'' \<and> ip \<noteq> []
                  \<and> (\<forall>c \<in> set ip. is_digit c) \<and> is_digit d1 \<and> is_digit d2
                  \<and> \<bar>of_nat (read_nat ip) + of_nat (read_nat [d1, d2]) / 100 - v\<bar> \<le> 1 / 200)))"
proof -
  define s where "s = summary (generate_report m now)"
  define q :: rat where "q = of_nat (successful s) / of_nat (total_apis s)"
  define v :: rat where "v = fl (fl q * 100)"
  have t: "total_apis s = length (m_results m)"
    and su: "successful s = length (filter (\<lambda>r. r_status r = ''SUCCESS'') (m_results m))"
    unfolding s_def by (rule summary_counts)+
  have sr: "success_rate s = (if 0 < total_apis s then format_2f v @ ''%'' else ''0%'')"
    unfolding v_def q_def t su unfolding s_def by (rule summary_success_rate)
  have q0: "0 \<le> q" unfolding q_def by simp
  have v0: "0 \<le> v" unfolding v_def using q0 by (simp add: fl_nonneg)
  have err: "\<bar>v - q * 100\<bar> \<le> q * 100 * 3 / 2 ^ 53"
    unfolding v_def using q0 by (rule fl_rate_error)
  have zero: "total_apis s = 0 \<longrightarrow> success_rate s = ''0%''" using sr by simp
  have pos: "0 < total_apis s \<longrightarrow>
            success_rate s = format_2f v @ ''%''
            \<and> \<bar>v - q * 100\<bar> \<le> q * 100 * 3 / 2 ^ 53
            \<and> (\<exists>ip d1 d2. success_rate s = ip @ ''.'' @ [d1, d2] @ ''%'' \<and> ip \<noteq> []
                  \<and> (\<forall>c \<in> set ip. is_digit c) \<and> is_digit d1 \<and> is_digit d2
                  \<and> \<bar>of_nat (read_nat ip) + of_nat (read_nat [d1, d2]) / 100 - v\<bar> \<le> 1 / 200)"
  proof
    assume p: "0 < total_apis s"
    from format_2f_nonneg [OF v0] obtain ip d1 d2 where
      f: "format_2f v = ip @ ''.'' @ [d1, d2]" and
      rest: "ip \<noteq> []" "\<forall>c \<in> set ip. is_digit c" "is_digit d1" "is_digit d2"
        "\<bar>of_nat (read_nat ip) + of_nat (read_nat [d1, d2]) / 100 - v\<bar> \<le> 1 / 200"
      by blast
    from p sr have e: "success_rate s = format_2f v @ ''%''" by simp
    then have "success_rate s = ip @ ''.'' @ [d1, d2] @ ''%''" using f by simp
    with rest e err show "success_rate s = format_2f v @ ''%''
            \<and> \<bar>v - q * 100\<bar> \<le> q * 100 * 3 / 2 ^ 53
            \<and> (\<exists>ip d1 d2. success_rate s = ip @ ''.'' @ [d1, d2] @ ''%'' \<and> ip \<noteq> []
                  \<and> (\<forall>c \<in> set ip. is_digit c) \<and> is_digit d1 \<and> is_digit d2
                  \<and> \<bar>of_nat (read_nat ip) + of_nat (read_nat [d1, d2]) / 100 - v\<bar> \<le> 1 / 200)"
      by blast
  qed
  show ?thesis
    unfolding Let_def using t su zero pos unfolding s_def v_def q_def by blast
qed

theorem success_rate_two_decimals_witness:
  "total_apis (summary (generate_report (ex_monitor []) ''2024-01-01T00:00:09'')) = 0
   \<and> success_rate (summary (generate_report (ex_monitor []) ''2024-01-01T00:00:09'')) = ''0%''
   \<and> 0 < total_apis (summary (generate_report ex_three ''2024-01-01T00:00:09''))
   \<and> success_rate (summary (generate_report ex_three ''2024-01-01T00:00:09'')) = ''100.00%''"
proof -
  have t0: "total_apis (summary (generate_report (ex_monitor []) ''2024-01-01T00:00:09'')) = 0"
    by (simp add: summary_counts ex_monitor_simps)
  have t3: "total_apis (summary (generate_report ex_three ''2024-01-01T00:00:09'')) = 3"
    by (simp add: summary_counts ex_three_results)
  have s3: "successful (summary (generate_report ex_three ''2024-01-01T00:00:09'')) = 3"
    by (simp add: summary_counts ex_three_results ex_result_simps)
  from success_rate_two_decimals [of "ex_monitor []" "''2024-01-01T00:00:09''"] t0
  have a: "success_rate (summary (generate_report (ex_monitor []) ''2024-01-01T00:00:09'')) = ''0%''"
    unfolding Let_def by blast
  from success_rate_two_decimals [of ex_three "''2024-01-01T00:00:09''"] t3
  have "success_rate (summary (generate_report ex_three ''2024-01-01T00:00:09''))
      = format_2f (fl (fl (of_nat 3 / of_nat 3) * 100)) @ ''%''"
    unfolding Let_def s3 t3 by simp
  then have b: "success_rate (summary (generate_report ex_three ''2024-01-01T00:00:09''))
      = ''100.00%''"
    by (simp add: float_rate_one format_2f_100)
  from t0 a t3 b show ?thesis by simp
qed

text \<open>
  Claim C5 says that the average is taken over the successful results only. The run
  \<open>ex_stale\<close> has one successful probe, with latency 125, and one probe that ends as
  \<^verbatim>\<open>ERROR\<close> after its response has arrived, with latency 500; the report gives the average
  312.5: the aggregator guards on the status and then takes the latency of every result
  that has one.
\<close>

theorem average_counts_failed_probe:
  "map r_status (m_results ex_stale) = [''SUCCESS'', ''ERROR'']
   \<and> map r_response_time_ms (m_results ex_stale) = [Some 125, Some 500]
   \<and> successful (summary (generate_report ex_stale ''2024-01-01T00:00:09'')) = 1
   \<and> failed (summary (generate_report ex_stale ''2024-01-01T00:00:09'')) = 1
   \<and> average_response_time_ms (summary (generate_report ex_stale ''2024-01-01T00:00:09''))
       = 625 / 2"
  by (simp add: ex_stale_average summary_counts ex_stale_results ex_result_def)

text \<open>
  Claim C6. The detail records are the results sorted by name in ascending order of
  character codes: the names are sorted, no record is lost or added, records of the same
  name keep their order, and results named B, A and C in any order come out as A, B, C.
\<close>

theorem detailed_results_stable_sort:
  "(let ds = detailed_results (generate_report m now)
    in sorted (map r_name ds)
       \<and> mset ds = mset (m_results m)
       \<and> (\<forall>k. filter (\<lambda>r. r_name r = k) ds = filter (\<lambda>r. r_name r = k) (m_results m))
       \<and> (mset (map r_name (m_results m)) = {#''B'', ''A'', ''C''#}
            \<longrightarrow> map r_name ds = [''A'', ''B'', ''C'']))"
proof -
  define ds where "ds = detailed_results (generate_report m now)"
  have ds: "ds = sort_key r_name (m_results m)"
    unfolding ds_def by (rule detailed_results_eq)
  have s: "sorted (map r_name ds)" unfolding ds by (rule sorted_sort_key)
  have p: "mset ds = mset (m_results m)" unfolding ds by simp
  have st: "\<forall>k. filter (\<lambda>r. r_name r = k) ds = filter (\<lambda>r. r_name r = k) (m_results m)"
    unfolding ds by (simp add: sort_key_stable)
  have abc: "mset (map r_name (m_results m)) = {#''B'', ''A'', ''C''#}
            \<longrightarrow> map r_name ds = [''A'', ''B'', ''C'']"
  proof
    assume a: "mset (map r_name (m_results m)) = {#''B'', ''A'', ''C''#}"
    have "mset [''A'', ''B'', ''C''] = mset (map r_name (m_results m))"
      unfolding a by simp
    then have "sort (map r_name (m_results m)) = [''A'', ''B'', ''C'']"
      using sorted_ABC by (rule properties_for_sort)
    then show "map r_name ds = [''A'', ''B'', ''C'']"
      unfolding ds by (simp only: map_sort_key)
  qed
  show ?thesis unfolding Let_def using s p st abc unfolding ds_def by blast
qed

theorem detailed_results_stable_sort_witness:
  "map r_name (m_results ex_three) = [''B'', ''A'', ''C'']
   \<and> mset (map r_name (m_results ex_three)) = {#''B'', ''A'', ''C''#}
   \<and> map r_name (detailed_results (generate_report ex_three ''2024-01-01T00:00:09''))
       = [''A'', ''B'', ''C'']"
proof -
  have n: "map r_name (m_results ex_three) = [''B'', ''A'', ''C'']"
    by (simp add: ex_three_results ex_result_simps)
  then have h: "mset (map r_name (m_results ex_three)) = {#''B'', ''A'', ''C''#}"
    by simp
  from detailed_results_stable_sort [of ex_three "''2024-01-01T00:00:09''"] h n
  show ?thesis unfolding Let_def by blast
qed
section \<open>The claims about the probe executor\<close>

text \<open>
  Claim C2, as amended. For a descriptor with the three required keys \<^verbatim>\<open>call_api\<close>
  returns a result and raises nothing, whatever the network does, and the status is one
  of the four variants: \<^verbatim>\<open>SUCCESS\<close> for a response of any status code whose body is decoded
  or fails to decode with \<^verbatim>\<open>json.JSONDecodeError\<close>; \<^verbatim>\<open>ERROR\<close> with the message for a response
  whose decoding raises another exception; \<^verbatim>\<open>TIMEOUT\<close> for a timeout;
  \<^verbatim>\<open>CONNECTION_ERROR\<close> with the message for a connection failure; \<^verbatim>\<open>ERROR\<close> with the
  message for any other exception of the network call.
\<close>

theorem call_api_outcome:
  assumes "a_name api = Some nm" and "a_method api = Some meth" and "a_endpoint api = Some ep"
  shows "\<exists>r. call_api m api env = Inr r \<and> r_name r = nm
           \<and> r_status r \<in> {''SUCCESS'', ''TIMEOUT'', ''CONNECTION_ERROR'', ''ERROR''}
           \<and> (case e_send env
                      (build_request (m_config m) meth (format_base_url (m_base_url m) @ ep)
                         (case a_params api of None \<Rightarrow> [] | Some p \<Rightarrow> p)
                         (case a_body api of None \<Rightarrow> JObj [] | Some b \<Rightarrow> b)) of
                 Responded resp \<Rightarrow>
                   (case resp_json resp of
                      JsonRaises e \<Rightarrow> r_status r = ''ERROR'' \<and> r_error r = Some e
                    | _ \<Rightarrow> r_status r = ''SUCCESS''
                           \<and> r_status_code r = Some (resp_status_code resp)
                           \<and> r_error r = None)
               | Timeout \<Rightarrow> r_status r = ''TIMEOUT'' \<and> r_error r = Some ''Request timed out''
               | ConnectionError e \<Rightarrow> r_status r = ''CONNECTION_ERROR'' \<and> r_error r = Some e
               | Raises e \<Rightarrow> r_status r = ''ERROR'' \<and> r_error r = Some e)"
proof -
  from call_api_classified [OF assms, of m env] obtain r where
    r: "call_api m api env = Inr r" and n: "r_name r = nm" and
    c: "(case e_send env
                      (build_request (m_config m) meth (format_base_url (m_base_url m) @ ep)
                         (case a_params api of None \<Rightarrow> [] | Some p \<Rightarrow> p)
                         (case a_body api of None \<Rightarrow> JObj [] | Some b \<Rightarrow> b)) of
                 Responded resp \<Rightarrow>
                   (case resp_json resp of
                      JsonRaises e \<Rightarrow> r_status r = ''ERROR'' \<and> r_error r = Some e
                    | _ \<Rightarrow> r_status r = ''SUCCESS''
                           \<and> r_status_code r = Some (resp_status_code resp)
                           \<and> r_error r = None)
               | Timeout \<Rightarrow> r_status r = ''TIMEOUT'' \<and> r_error r = Some ''Request timed out''
               | ConnectionError e \<Rightarrow> r_status r = ''CONNECTION_ERROR'' \<and> r_error r = Some e
               | Raises e \<Rightarrow> r_status r = ''ERROR'' \<and> r_error r = Some e)"
    by blast
  from r have "r_status r \<in> {''SUCCESS'', ''TIMEOUT'', ''CONNECTION_ERROR'', ''ERROR''}"
    by (rule call_api_status_set)
  with r n c show ?thesis by blast
qed

theorem call_api_outcome_witness:
  "a_name (ex_api ''A'') = Some ''A'' \<and> a_method (ex_api ''A'') = Some ''GET''
   \<and> a_endpoint (ex_api ''A'') = Some ''/A''
   \<and> (\<exists>r. call_api (ex_monitor []) (ex_api ''A'')
              (ex_env (Responded (ex_response 404 JsonDecodeError)) (1 / 8)) = Inr r
          \<and> r_status r = ''SUCCESS'' \<and> r_status_code r = Some 404 \<and> r_error r = None)"
proof -
  have a: "a_name (ex_api ''A'') = Some ''A''" and b: "a_method (ex_api ''A'') = Some ''GET''"
    and c: "a_endpoint (ex_api ''A'') = Some ''/A''"
    by (simp_all add: ex_api_def)
  have es: "e_send (ex_env out secs) req = out" for out secs req
    by (simp add: ex_env_def)
  from call_api_outcome [OF a b c, of "ex_monitor []"
      "ex_env (Responded (ex_response 404 JsonDecodeError)) (1 / 8)"]
  obtain r where
    r: "call_api (ex_monitor []) (ex_api ''A'')
          (ex_env (Responded (ex_response 404 JsonDecodeError)) (1 / 8)) = Inr r" and
    cs: "(case e_send (ex_env (Responded (ex_response 404 JsonDecodeError)) (1 / 8))
                      (build_request (m_config (ex_monitor [])) ''GET''
                         (format_base_url (m_base_url (ex_monitor [])) @ ''/A'')
                         (case a_params (ex_api ''A'') of None \<Rightarrow> [] | Some p \<Rightarrow> p)
                         (case a_body (ex_api ''A'') of None \<Rightarrow> JObj [] | Some b \<Rightarrow> b)) of
                 Responded resp \<Rightarrow>
                   (case resp_json resp of
                      JsonRaises e \<Rightarrow> r_status r = ''ERROR'' \<and> r_error r = Some e
                    | _ \<Rightarrow> r_status r = ''SUCCESS''
                           \<and> r_status_code r = Some (resp_status_code resp)
                           \<and> r_error r = None)
               | Timeout \<Rightarrow> r_status r = ''TIMEOUT'' \<and> r_error r = Some ''Request timed out''
               | ConnectionError e \<Rightarrow> r_status r = ''CONNECTION_ERROR'' \<and> r_error r = Some e
               | Raises e \<Rightarrow> r_status r = ''ERROR'' \<and> r_error r = Some e)"
    by blast
  from cs have "r_status r = ''SUCCESS'' \<and> r_status_code r = Some 404 \<and> r_error r = None"
    unfolding es by (simp add: ex_response_def)
  with r a b c show ?thesis by blast
qed

text \<open>
  Claim C2 as stated fails twice: a response is received, with status code 500, and the
  status of the result is \<^verbatim>\<open>ERROR\<close>, because decoding its body raises an exception that is
  not \<^verbatim>\<open>json.JSONDecodeError\<close> and the last handler catches it; and for a descriptor
  without the key \<^verbatim>\<open>endpoint\<close> the call raises \<^verbatim>\<open>KeyError\<close> and classifies nothing.
\<close>

theorem call_api_response_not_success_counterexample:
  "e_send (ex_env (ex_undecodable 500) (1 / 8)) (Get ''https://example.com/A'' [] 30)
     = Responded (ex_response 500
         (JsonRaises ''maximum recursion depth exceeded while decoding a JSON array''))
   \<and> map_sum id r_status
         (call_api (ex_monitor []) (ex_api ''A'') (ex_env (ex_undecodable 500) (1 / 8)))
       = Inr ''ERROR''
   \<and> call_api (ex_monitor []) ex_bad_api (ex_env ex_ok (1 / 8)) = Inl (KeyError ''endpoint'')"
proof -
  have a: "e_send (ex_env (ex_undecodable 500) (1 / 8)) (Get ''https://example.com/A'' [] 30)
     = Responded (ex_response 500
         (JsonRaises ''maximum recursion depth exceeded while decoding a JSON array''))"
    by (simp add: ex_env_def ex_undecodable_def)
  have b: "map_sum id r_status
         (call_api (ex_monitor []) (ex_api ''A'') (ex_env (ex_undecodable 500) (1 / 8)))
       = Inr ''ERROR''"
    by (simp add: call_api_undecodable ex_result_def)
  have c: "call_api (ex_monitor []) ex_bad_api (ex_env ex_ok (1 / 8)) = Inl (KeyError ''endpoint'')"
    by (simp add: call_api_def ex_bad_api_def ex_api_def)
  from a b c show ?thesis by blast
qed

text \<open>
  Claim C9 says that a result with status \<^verbatim>\<open>ERROR\<close> has an error and none of the fields of
  a success. When the body of a received response cannot be decoded, the handler sets
  the status \<^verbatim>\<open>ERROR\<close> and the error on a result that already has the status code, the
  latency, the size and the content type of the response.
\<close>

theorem call_api_error_keeps_success_fields:
  "map_sum id r_status
     (call_api (ex_monitor []) (ex_api ''B'') (ex_env (ex_undecodable 200) (1 / 2)))
     = Inr ''ERROR''
   \<and> map_sum id r_error
     (call_api (ex_monitor []) (ex_api ''B'') (ex_env (ex_undecodable 200) (1 / 2)))
     = Inr (Some ''maximum recursion depth exceeded while decoding a JSON array'')
   \<and> map_sum id r_status_code
     (call_api (ex_monitor []) (ex_api ''B'') (ex_env (ex_undecodable 200) (1 / 2)))
     = Inr (Some 200)
   \<and> map_sum id r_response_time_ms
     (call_api (ex_monitor []) (ex_api ''B'') (ex_env (ex_undecodable 200) (1 / 2)))
     = Inr (Some 500)
   \<and> map_sum id r_response_size_bytes
     (call_api (ex_monitor []) (ex_api ''B'') (ex_env (ex_undecodable 200) (1 / 2)))
     = Inr (Some 2)
   \<and> map_sum id r_content_type
     (call_api (ex_monitor []) (ex_api ''B'') (ex_env (ex_undecodable 200) (1 / 2)))
     = Inr (Some ''application/json'')
   \<and> map_sum id r_response_data
     (call_api (ex_monitor []) (ex_api ''B'') (ex_env (ex_undecodable 200) (1 / 2)))
     = Inr None"
  by (simp add: call_api_undecodable ex_result_def ms_half)

text \<open>
  Claim C10. A descriptor without one of the keys \<^verbatim>\<open>name\<close>, \<^verbatim>\<open>method\<close>, \<^verbatim>\<open>endpoint\<close> makes
  \<^verbatim>\<open>call_api\<close> raise \<^verbatim>\<open>KeyError\<close>, in every world; and a run over a list with such a
  descriptor ends with a \<^verbatim>\<open>KeyError\<close>, whatever the other probes do and in whatever
  order they finish.
\<close>

theorem missing_key_aborts_run:
  assumes "c_monitoring_apis (m_config m) = Some apis" and "api \<in> set apis"
    and "a_name api = None \<or> a_method api = None \<or> a_endpoint api = None"
    and "0 < max_workers"
  shows "(\<exists>k. call_api m api env = Inl (KeyError k))
       \<and> (\<exists>m' k. run_all_apis m max_workers envs sched = (m', Inl (KeyError k)))"
proof -
  define futs where "futs = map (\<lambda>(i, api). call_api m api (envs i)) (enumerate 0 apis)"
  from assms(2) obtain i where i: "i < length apis" and ai: "apis ! i = api"
    by (auto simp: in_set_conv_nth)
  then have "(i, api) \<in> set (enumerate 0 apis)" by (simp add: in_set_enumerate_eq)
  then have "call_api m api (envs i) \<in> set futs" unfolding futs_def by force
  moreover from call_api_missing_key [OF assms(3), of m "envs i"]
  obtain k0 where "call_api m api (envs i) = Inl (KeyError k0)" by blast
  ultimately have "Inl (KeyError k0) \<in> set (as_completed sched futs)"
    by (simp add: set_as_completed)
  from collect_raises [OF this, of m] obtain m' e' where
    c: "collect m (as_completed sched futs) = (m', Inl e')" and
    e: "Inl e' \<in> set (as_completed sched futs)" by blast
  from e have "Inl e' \<in> set futs" by (simp add: set_as_completed)
  then obtain j a where "call_api m a (envs j) = Inl e'" unfolding futs_def by auto
  then obtain k where "e' = KeyError k" by (blast dest: call_api_error_is_KeyError)
  with c have "run_all_apis m max_workers envs sched = (m', Inl (KeyError k))"
    unfolding futs_def using run_all_apis_unfold [OF assms(1) assms(4), of envs sched] by simp
  with call_api_missing_key [OF assms(3), of m env] show ?thesis by blast
qed

theorem missing_key_aborts_run_witness:
  "c_monitoring_apis (m_config (ex_monitor [ex_api ''A'', ex_bad_api]))
     = Some [ex_api ''A'', ex_bad_api]
   \<and> ex_bad_api \<in> set [ex_api ''A'', ex_bad_api]
   \<and> a_endpoint ex_bad_api = None
   \<and> (\<exists>k. call_api (ex_monitor [ex_api ''A'', ex_bad_api]) ex_bad_api (ex_env ex_ok (1 / 8))
            = Inl (KeyError k))
   \<and> (\<exists>m' k. run_all_apis (ex_monitor [ex_api ''A'', ex_bad_api]) 10
                 (\<lambda>i. ex_env ex_ok (1 / 8)) [] = (m', Inl (KeyError k)))"
proof -
  have a: "c_monitoring_apis (m_config (ex_monitor [ex_api ''A'', ex_bad_api]))
     = Some [ex_api ''A'', ex_bad_api]" by (rule ex_monitor_simps)
  have b: "ex_bad_api \<in> set [ex_api ''A'', ex_bad_api]" by simp
  have c: "a_endpoint ex_bad_api = None" by (simp add: ex_bad_api_def)
  then have c': "a_name ex_bad_api = None \<or> a_method ex_bad_api = None \<or> a_endpoint ex_bad_api = None"
    by simp
  have d: "(0::int) < 10" by simp
  from missing_key_aborts_run [OF a b c' d, of "ex_env ex_ok (1 / 8)" "\<lambda>i. ex_env ex_ok (1 / 8)" "[]"]
    a b c show ?thesis by blast
qed



text \<open>
  Claim C7. A run of a freshly constructed monitor over nine descriptors, of which eight
  probes are answered with status code 200 and one times out, in any order of completion,
  gives a report with 9 probes, 8 successful, 1 failed and the success rate
  \<^verbatim>\<open>88.89%\<close>; the detail record of the probe that timed out has the status \<^verbatim>\<open>TIMEOUT\<close>
  and no status code, as has every detail record with that status.
\<close>

theorem nine_probes_one_timeout:
  assumes cfg: "c_monitoring_apis (m_config m) = Some apis"
    and fresh: "m_results m = []"
    and len: "length apis = 9"
    and wf: "\<forall>a \<in> set apis. a_name a \<noteq> None \<and> a_method a \<noteq> None \<and> a_endpoint a \<noteq> None"
    and w: "0 < max_workers"
    and k: "k < 9"
    and ok: "\<forall>i < 9. i \<noteq> k \<longrightarrow>
               (\<exists>resp. (\<forall>req. e_send (envs i) req = Responded resp)
                  \<and> resp_status_code resp = 200 \<and> (\<forall>e. resp_json resp \<noteq> JsonRaises e))"
    and to: "\<forall>req. e_send (envs k) req = Timeout"
  shows "\<exists>m' rs. run_all_apis m max_workers envs sched = (m', Inr rs)
           \<and> total_apis (summary (generate_report m' now)) = 9
           \<and> successful (summary (generate_report m' now)) = 8
           \<and> failed (summary (generate_report m' now)) = 1
           \<and> success_rate (summary (generate_report m' now)) = ''88.89%''
           \<and> (\<exists>r \<in> set (detailed_results (generate_report m' now)).
                 Some (r_name r) = a_name (apis ! k) \<and> r_status r = ''TIMEOUT''
                 \<and> r_status_code r = None)
           \<and> (\<forall>r \<in> set (detailed_results (generate_report m' now)).
                 r_status r = ''TIMEOUT'' \<longrightarrow> r_status_code r = None)"
proof -
  define h where "h = (\<lambda>(i, api). call_api m api (envs i))"
  define futs where "futs = map h (enumerate 0 apis)"
  from run_all_apis_wellformed [OF cfg wf w, of envs sched] obtain new where
    r: "run_all_apis m max_workers envs sched
          = (m \<lparr> m_results := m_results m @ new \<rparr>, Inr (m_results m @ new))" and
    ms: "mset (map Inr new) = mset futs"
    unfolding futs_def h_def by blast
  define m' where "m' = m \<lparr> m_results := new \<rparr>"
  have run: "run_all_apis m max_workers envs sched = (m', Inr new)"
    using r unfolding m'_def fresh by simp
  have res: "m_results m' = new" unfolding m'_def by simp
  have l: "length new = 9"
    using ms len unfolding futs_def by (metis length_map mset_eq_length length_enumerate)
  have idx: "i < 9 \<and> a \<in> set apis \<and> a = apis ! i" if "(i, a) \<in> set (enumerate 0 apis)" for i a
    using that len by (auto simp: in_set_enumerate_eq)
  have good: "\<exists>r. h (i, a) = Inr r \<and> r_status r = ''SUCCESS''"
    if "(i, a) \<in> set (enumerate 0 apis)" and "i \<noteq> k" for i a
  proof -
    from idx [OF that(1)] have i: "i < 9" and a: "a \<in> set apis" by blast+
    from ok i that(2) obtain resp where
      s: "\<forall>req. e_send (envs i) req = Responded resp" and j: "\<forall>e. resp_json resp \<noteq> JsonRaises e"
      by blast
    from a wf have "a_name a \<noteq> None" "a_method a \<noteq> None" "a_endpoint a \<noteq> None" by blast+
    from call_api_answers [OF this s j, of m] show ?thesis unfolding h_def by auto
  qed
  have bad: "\<exists>r. h (k, a) = Inr r \<and> r_status r = ''TIMEOUT'' \<and> r_status_code r = None
                \<and> Some (r_name r) = a_name a"
    if "(k, a) \<in> set (enumerate 0 apis)" for a
  proof -
    from idx [OF that] have "a \<in> set apis" by blast
    with wf have "a_name a \<noteq> None" "a_method a \<noteq> None" "a_endpoint a \<noteq> None"
      by blast+
    from call_api_times_out [OF this to, of m] show ?thesis unfolding h_def by auto
  qed
  define Q :: "py_error + probe_result \<Rightarrow> bool"
    where "Q = (\<lambda>f. case f of Inl e \<Rightarrow> False | Inr r \<Rightarrow> r_status r = ''SUCCESS'')"
  have Qh: "Q (h x) = (case x of (i, a) \<Rightarrow> i \<noteq> k)" if "x \<in> set (enumerate 0 apis)" for x
  proof (cases x)
    case (Pair i a)
    show ?thesis
    proof (cases "i = k")
      case True
      with that Pair bad [of a] show ?thesis by (auto simp: Q_def)
    next
      case False
      with that Pair good [of i a] show ?thesis by (auto simp: Q_def)
    qed
  qed
  have "length (filter (\<lambda>r. r_status r = ''SUCCESS'') new) = length (filter Q futs)"
    unfolding Q_def using ms by (rule length_filter_results)
  also have "\<dots> = length (filter (Q \<circ> h) (enumerate 0 apis))"
    unfolding futs_def by (simp add: filter_map)
  also have "filter (Q \<circ> h) (enumerate 0 apis) = filter (\<lambda>(i, a). i \<noteq> k) (enumerate 0 apis)"
    by (rule filter_cong) (simp_all add: Qh)
  also have "length (filter (\<lambda>(i, a). i \<noteq> k) (enumerate 0 apis))
           = length (filter (\<lambda>i. i \<noteq> k) [0..<length apis])"
    by (rule length_filter_enumerate)
  also have "\<dots> = 8" using length_filter_neq_upt [of k 9] k len by simp
  finally have s8: "length (filter (\<lambda>r. r_status r = ''SUCCESS'') new) = 8" .
  have t: "total_apis (summary (generate_report m' now)) = 9"
    by (simp add: summary_counts res l)
  have s: "successful (summary (generate_report m' now)) = 8"
    by (simp add: summary_counts res s8)
  have f: "failed (summary (generate_report m' now)) = 1"
    by (simp add: summary_counts res s8 l)
  have "success_rate (summary (generate_report m' now))
      = format_2f (fl (fl (8 / 9) * 100)) @ ''%''"
    by (simp add: summary_success_rate res s8 l)
  then have sr: "success_rate (summary (generate_report m' now)) = ''88.89%''"
    by (simp add: float_rate_eight_ninths)
  have det: "set (detailed_results (generate_report m' now)) = set new"
    by (simp add: detailed_results_eq res)
  have seteq: "set (map Inr new) = set futs" using ms by (rule mset_eq_setD)
  have mem: "Inr r \<in> set futs" if "r \<in> set new" for r
    using that unfolding seteq [symmetric] by simp
  have mem': "r \<in> set new" if "Inr r \<in> set futs" for r
    using that unfolding seteq [symmetric] by auto
  have kk: "(k, apis ! k) \<in> set (enumerate 0 apis)"
    using k len by (simp add: in_set_enumerate_eq)
  from bad [OF kk] obtain rk where
    rk: "h (k, apis ! k) = Inr rk" and rks: "r_status rk = ''TIMEOUT''"
    and rkc: "r_status_code rk = None" and rkn: "Some (r_name rk) = a_name (apis ! k)"
    by blast
  have "Inr rk \<in> set futs" unfolding futs_def using kk rk by force
  then have "rk \<in> set new" by (rule mem')
  with rks rkc rkn have ex: "\<exists>r \<in> set (detailed_results (generate_report m' now)).
                 Some (r_name r) = a_name (apis ! k) \<and> r_status r = ''TIMEOUT''
                 \<and> r_status_code r = None"
    unfolding det by blast
  have al: "\<forall>r \<in> set (detailed_results (generate_report m' now)).
                 r_status r = ''TIMEOUT'' \<longrightarrow> r_status_code r = None"
  proof (intro ballI impI)
    fix r assume "r \<in> set (detailed_results (generate_report m' now))"
      and st: "r_status r = ''TIMEOUT''"
    then have "Inr r \<in> set futs" unfolding det by (simp add: mem)
    then obtain i a where "call_api m a (envs i) = Inr r" unfolding futs_def h_def by auto
    from call_api_timeout_fields [OF this st] show "r_status_code r = None" by simp
  qed
  from run t s f sr ex al show ?thesis by blast
qed

theorem nine_probes_one_timeout_witness:
  "length [ex_api ''A1'', ex_api ''A2'', ex_api ''A3'', ex_api ''A4'', ex_api ''A5'',
           ex_api ''A6'', ex_api ''A7'', ex_api ''A8'', ex_api ''A9''] = 9
   \<and> e_send (ex_nine_envs 3) (Get ''https://example.com/A4'' [] 30) = Timeout
   \<and> (\<exists>m' rs. run_all_apis ex_nine 3 ex_nine_envs [4, 0, 7] = (m', Inr rs)
          \<and> total_apis (summary (generate_report m' ''2024-01-01T00:00:09'')) = 9
          \<and> successful (summary (generate_report m' ''2024-01-01T00:00:09'')) = 8
          \<and> failed (summary (generate_report m' ''2024-01-01T00:00:09'')) = 1
          \<and> success_rate (summary (generate_report m' ''2024-01-01T00:00:09'')) = ''88.89%'')"
proof -
  define apis where "apis = map ex_api [''A1'', ''A2'', ''A3'', ''A4'', ''A5'', ''A6'', ''A7'', ''A8'', ''A9'']"
  have cfg: "c_monitoring_apis (m_config ex_nine) = Some apis"
    unfolding ex_nine_def apis_def by (rule ex_monitor_simps)
  have fresh: "m_results ex_nine = []" unfolding ex_nine_def by (rule ex_monitor_simps)
  have len: "length apis = 9" unfolding apis_def by simp
  have wf: "\<forall>a \<in> set apis. a_name a \<noteq> None \<and> a_method a \<noteq> None \<and> a_endpoint a \<noteq> None"
    unfolding apis_def by (simp add: ex_api_def)
  have w: "(0::int) < 3" by simp
  have k: "(3::nat) < 9" by simp
  have ok: "\<forall>i < 9. i \<noteq> 3 \<longrightarrow>
               (\<exists>resp. (\<forall>req. e_send (ex_nine_envs i) req = Responded resp)
                  \<and> resp_status_code resp = 200 \<and> (\<forall>e. resp_json resp \<noteq> JsonRaises e))"
    by (simp add: ex_nine_envs_def ex_env_def ex_ok_def ex_response_def)
  have to: "\<forall>req. e_send (ex_nine_envs 3) req = Timeout"
    by (simp add: ex_nine_envs_def ex_env_def)
  from nine_probes_one_timeout [OF cfg fresh len wf w k ok to, of "[4, 0, 7]"
      "''2024-01-01T00:00:09''"]
  have c: "\<exists>m' rs. run_all_apis ex_nine 3 ex_nine_envs [4, 0, 7] = (m', Inr rs)
          \<and> total_apis (summary (generate_report m' ''2024-01-01T00:00:09'')) = 9
          \<and> successful (summary (generate_report m' ''2024-01-01T00:00:09'')) = 8
          \<and> failed (summary (generate_report m' ''2024-01-01T00:00:09'')) = 1
          \<and> success_rate (summary (generate_report m' ''2024-01-01T00:00:09'')) = ''88.89%''"
    by blast
  have l: "length [ex_api ''A1'', ex_api ''A2'', ex_api ''A3'', ex_api ''A4'', ex_api ''A5'',
           ex_api ''A6'', ex_api ''A7'', ex_api ''A8'', ex_api ''A9''] = 9" by simp
  from to have t: "e_send (ex_nine_envs 3) (Get ''https://example.com/A4'' [] 30) = Timeout"
    by blast
  from l t c show ?thesis by blast
qed
section \<open>The claim about the exit codes\<close>

text \<open>
  Claim C8, as amended. \<^verbatim>\<open>main\<close> of the monitor exits with 0 exactly when the
  configuration was loaded, the domain set, the run finished without an exception, the
  report was written and printed without an exception, and its count of failed probes is
  0; in every other case it exits with 1. \<^verbatim>\<open>main\<close> of the demo monitor follows the same
  rule, and since one of its nine simulated probes always times out it always exits with
  1. \<^verbatim>\<open>main\<close> of the email reporter exits with 0 exactly when the report was loaded and
  the message was sent, whatever the count of failed probes, and with 1 otherwise.
\<close>

theorem exit_codes:
  "(main domain workers w = 0 \<longleftrightarrow>
     (\<exists>m0 m1 m2 rs. init_monitor (w_config_file w) = Inr m0
        \<and> set_domain m0 domain = Inr m1
        \<and> run_all_apis m1 workers (w_envs w) (w_sched w) = (m2, Inr rs)
        \<and> w_save w (generate_report m2 (w_report_now w)) = None
        \<and> w_print w (generate_report m2 (w_report_now w)) = None
        \<and> failed (summary (generate_report m2 (w_report_now w))) = 0))
   \<and> main domain workers w \<in> {0, 1}
   \<and> failed (summary (demo_generate_report
        (fst (demo_run_all_apis init_demo_monitor denvs)) dnow)) = 1
   \<and> demo_main denvs dnow dsave dprint = 1
   \<and> (email_main loaded send_email = 0 \<longleftrightarrow>
        (\<exists>rep. loaded = Inr rep \<and> send_email (0 < failed (summary rep))))
   \<and> email_main loaded send_email \<in> {0, 1}"
  using main_exit [of domain workers w] main_codes [of domain workers w]
    demo_failed [of denvs dnow] demo_main_exit [of denvs dnow dsave dprint]
    email_main_exit [of loaded send_email] email_main_codes [of loaded send_email]
  by (intro conjI)

theorem exit_codes_witness:
  "main ''example.com'' 10 (ex_world None) = 0
   \<and> (\<exists>m0 m1 m2 rs. init_monitor (w_config_file (ex_world None)) = Inr m0
        \<and> set_domain m0 ''example.com'' = Inr m1
        \<and> run_all_apis m1 10 (w_envs (ex_world None)) (w_sched (ex_world None)) = (m2, Inr rs)
        \<and> failed (summary (generate_report m2 (w_report_now (ex_world None)))) = 0)"
proof -
  have z: "main ''example.com'' 10 (ex_world None) = 0" by (simp add: ex_world_main)
  with exit_codes [of "''example.com''" 10 "ex_world None"]
  have "\<exists>m0 m1 m2 rs. init_monitor (w_config_file (ex_world None)) = Inr m0
        \<and> set_domain m0 ''example.com'' = Inr m1
        \<and> run_all_apis m1 10 (w_envs (ex_world None)) (w_sched (ex_world None)) = (m2, Inr rs)
        \<and> failed (summary (generate_report m2 (w_report_now (ex_world None)))) = 0"
    by blast
  with z show ?thesis by blast
qed

text \<open>
  Claim C8 as stated fails: a run whose report has no failed probe exits with 0 when the
  report file can be written and with 1 when it cannot; and the email reporter exits with
  0 on a report with a failed probe.
\<close>

theorem exit_code_counterexample:
  "failed (summary (generate_report
      ((ex_monitor [ex_api ''A'']) \<lparr> m_results := [ex_result ''A'' 125] \<rparr>)
      ''2024-01-01T00:00:09'')) = 0
   \<and> main ''example.com'' 10 (ex_world None) = 0
   \<and> main ''example.com'' 10 (ex_world (Some (OtherError ''Permission denied''))) = 1
   \<and> failed (summary (generate_report ex_stale ''2024-01-01T00:00:09'')) = 1
   \<and> email_main (Inr (generate_report ex_stale ''2024-01-01T00:00:09'')) (\<lambda>failures. True) = 0"
  by (simp add: ex_world_failed ex_world_main email_main_def summary_counts ex_stale_results
      ex_result_def)

end
